theory Spec2Isabelle
  imports Main "HOL-Library.Word"
begin

unbundle bit_operations_syntax

section \<open>Identifiers, time and errors\<close>

text \<open>
  \<^verbatim>\<open>uuid.UUID\<close> is a 16-byte array; it is read here as one 128-bit word, byte 0
  being the most significant. \<^verbatim>\<open>uuid.Nil\<close> is the all-zero identifier.
\<close>

type_synonym uuid = "128 word"

definition uuid_Nil :: uuid where
  "uuid_Nil = 0"

text \<open>
  \<^verbatim>\<open>time.Time\<close> as an instant counted from Go's zero time, so that \<open>0\<close> is the zero
  value \<^verbatim>\<open>time.Time{}\<close>. A nullable time (\<^verbatim>\<open>gorm.DeletedAt\<close>, \<^verbatim>\<open>optional.Time\<close>) is an option.
\<close>

type_synonym timestamp = nat

text \<open>
  The errors the repository hands to its callers. \<open>ErrNilID\<close> and \<open>ErrNotFound\<close> are the
  repository's own; \<open>ErrRecordNotFound\<close> is gorm's "no rows" signal; \<open>ErrDuplicatedKey\<close> is
  the substrate refusing a second row with the same primary key; \<open>ErrStorage c\<close> is any other
  failure of the substrate (code \<open>c\<close>); \<open>ErrTextEmpty\<close> is the legacy
  \<^verbatim>\<open>errors.New("text is empty")\<close>; \<open>Panic\<close> stands for a Go panic unwinding through the
  operation (\<^verbatim>\<open>uuid.Must\<close> on a failed read of the entropy source).
\<close>

datatype error =
    ErrNilID
  | ErrNotFound
  | ErrRecordNotFound
  | ErrDuplicatedKey
  | ErrStorage nat
  | ErrTextEmpty
  | Panic

section \<open>The model package: rows of the tables\<close>

text \<open>
  Modelled from the spec: the structs of package \<^verbatim>\<open>model\<close>, which are not among the
  sources. Each record has the fields the repository reads or writes in the sources, and
  the keys are those of the spec's data model: a message has an identity, author, channel,
  text, creation time, update time and nullable deletion time; an archived message is a
  snapshot (message, author, text, time); the latest-message pointer is keyed by channel;
  the unread marker by (user, message), with the flag \<^verbatim>\<open>noticeable\<close>; the reaction count
  by (message, stamp, user). Pins and clip-folder rows refer to a message; of channels
  and subscriptions the columns the queries name are kept.
\<close>

record MessageStamp =
  ms_MessageID :: uuid
  ms_StampID :: uuid
  ms_UserID :: uuid
  ms_Count :: int
  ms_CreatedAt :: timestamp
  ms_UpdatedAt :: timestamp

record Pin =
  pin_ID :: uuid
  pin_MessageID :: uuid
  pin_UserID :: uuid

record Message =
  ID :: uuid
  UserID :: uuid
  ChannelID :: uuid
  Text :: string
  CreatedAt :: timestamp
  UpdatedAt :: timestamp
  DeletedAt :: "timestamp option"
  Stamps :: "MessageStamp list"
  Pin :: "Pin option"

record ArchivedMessage =
  am_ID :: uuid
  am_MessageID :: uuid
  am_UserID :: uuid
  am_Text :: string
  am_DateTime :: timestamp

record ChannelLatestMessage =
  clm_ChannelID :: uuid
  clm_MessageID :: uuid
  clm_DateTime :: timestamp

record Unread =
  ur_UserID :: uuid
  ur_MessageID :: uuid
  ur_Noticeable :: bool

record ClipFolderMessage =
  cfm_FolderID :: uuid
  cfm_MessageID :: uuid

record Channel =
  ch_ID :: uuid
  ch_IsPublic :: bool
  ch_IsForced :: bool
  ch_DeletedAt :: "timestamp option"

record UserSubscribeChannel =
  usc_UserID :: uuid
  usc_ChannelID :: uuid

text \<open>
  The relational store: one list of rows per table, in insertion order. The associations
  \<open>Stamps\<close> and \<open>Pin\<close> of a \<open>Message\<close> are not columns: a stored row has them empty, and a
  preloading read fills them from \<open>messages_stamps\<close> and \<open>pins\<close>.
\<close>

record database =
  messages :: "Message list"
  archived_messages :: "ArchivedMessage list"
  channel_latest_messages :: "ChannelLatestMessage list"
  unreads :: "Unread list"
  pins :: "Pin list"
  clip_folder_messages :: "ClipFolderMessage list"
  messages_stamps :: "MessageStamp list"
  channels :: "Channel list"
  users_subscribe_channels :: "UserSubscribeChannel list"

section \<open>The environment: substrate failures, entropy, clock\<close>

text \<open>
  What the world answers, in the order the program asks.
  \<^item> \<open>faults\<close>: for each statement sent to the substrate (and each begin and commit),
    whether it fails and with which code; an exhausted list means no further failure.
  \<^item> \<open>entropy\<close>: the 128-bit values successive reads of the random source return; an
    exhausted list is a failing read.
  \<^item> \<open>now\<close>, \<open>later\<close>: the clock's current reading and the readings that follow it.
\<close>

record env =
  faults :: "nat option list"
  entropy :: "uuid list"
  now :: timestamp
  later :: "timestamp list"

definition substrate :: "env \<Rightarrow> nat option \<times> env" where
  "substrate e = (case faults e of
       [] \<Rightarrow> (None, e)
     | f # fs \<Rightarrow> (f, e\<lparr>faults := fs\<rparr>))"

definition time_Now :: "env \<Rightarrow> timestamp \<times> env" where
  "time_Now e = (now e, case later e of
       [] \<Rightarrow> e
     | t # ts \<Rightarrow> e\<lparr>now := t, later := ts\<rparr>)"

text \<open>
  \<^verbatim>\<open>uuid.NewV4\<close> (gofrs/uuid): sixteen random bytes, then the version nibble of byte 6 is
  set to 4 and the two top bits of byte 8 to the RFC 4122 variant \<open>10\<close>. Byte 6 is bits
  72..79 of the word and byte 8 is bits 56..63. \<open>None\<close> is the error \<^verbatim>\<open>uuid.Must\<close> panics on.
\<close>

definition NewV4 :: "env \<Rightarrow> (uuid \<times> env) option" where
  "NewV4 e = (case entropy e of
       [] \<Rightarrow> None
     | r # rs \<Rightarrow>
         Some (((r AND NOT (push_bit 76 0xF OR push_bit 62 0x3))
                  OR (push_bit 76 0x4 OR push_bit 62 0x2)),
               e\<lparr>entropy := rs\<rparr>))"

section \<open>The statements gorm sends to the substrate\<close>

text \<open>
  Each finisher of gorm (\<^verbatim>\<open>Create\<close>, \<^verbatim>\<open>First\<close>, \<^verbatim>\<open>Take\<close>, \<^verbatim>\<open>Find\<close>, \<^verbatim>\<open>Update\<close>,
  \<^verbatim>\<open>Delete\<close>, \<^verbatim>\<open>Scan\<close>) is one statement: it asks the environment once whether the
  substrate fails, and otherwise has the effect of its SQL on the tables. A model with a
  \<^verbatim>\<open>DeletedAt\<close> column (\<open>Message\<close>) is soft-deleted: its reads and updates carry
  \<^verbatim>\<open>deleted_at IS NULL\<close>, and its delete sets the column.
\<close>

text \<open>
  \<^verbatim>\<open>tx.Create(m)\<close> on a message: the zero \<^verbatim>\<open>CreatedAt\<close> and \<^verbatim>\<open>UpdatedAt\<close> are set to the
  clock's reading and written back to \<^verbatim>\<open>m\<close>; the insert is refused when the primary key is
  taken (a soft-deleted row still holds its key). The caller passes no associations.
\<close>

definition gorm_Create_Message ::
  "Message \<Rightarrow> database \<Rightarrow> env \<Rightarrow> error option \<times> Message \<times> database \<times> env" where
  "gorm_Create_Message m d e =
     (case time_Now e of (t, e1) \<Rightarrow>
        let m1 = m\<lparr>CreatedAt := (if CreatedAt m = 0 then t else CreatedAt m),
                   UpdatedAt := (if UpdatedAt m = 0 then t else UpdatedAt m)\<rparr>
        in (case substrate e1 of
              (Some c, e2) \<Rightarrow> (Some (ErrStorage c), m1, d, e2)
            | (None, e2) \<Rightarrow>
                (if ID m1 \<in> set (map ID (messages d))
                 then (Some ErrDuplicatedKey, m1, d, e2)
                 else (None, m1, d\<lparr>messages := messages d @ [m1]\<rparr>, e2))))"

text \<open>
  \<^verbatim>\<open>tx.Clauses(clause.OnConflict{UpdateAll: true}).Create(clm)\<close>: insert, or on a row with
  the same primary key (the channel id) overwrite every column.
\<close>

definition gorm_Upsert_ChannelLatestMessage ::
  "ChannelLatestMessage \<Rightarrow> database \<Rightarrow> env \<Rightarrow> error option \<times> database \<times> env" where
  "gorm_Upsert_ChannelLatestMessage clm d e =
     (case substrate e of
        (Some c, e1) \<Rightarrow> (Some (ErrStorage c), d, e1)
      | (None, e1) \<Rightarrow>
          (None,
           d\<lparr>channel_latest_messages :=
               (if clm_ChannelID clm \<in> set (map clm_ChannelID (channel_latest_messages d))
                then map (\<lambda>r. if clm_ChannelID r = clm_ChannelID clm then clm else r)
                       (channel_latest_messages d)
                else channel_latest_messages d @ [clm])\<rparr>,
           e1))"

text \<open>
  \<^verbatim>\<open>First\<close> and \<^verbatim>\<open>Take\<close> of a message by its id:
  \<^verbatim>\<open>SELECT * FROM messages WHERE id = ? AND deleted_at IS NULL LIMIT 1\<close>; no row is
  \<^verbatim>\<open>gorm.ErrRecordNotFound\<close>. With the \<^verbatim>\<open>messagePreloads\<close> scope the associations
  \<open>Stamps\<close> and \<open>Pin\<close> of the row found are loaded.
\<close>

definition select_message :: "Message list \<Rightarrow> uuid \<Rightarrow> Message option" where
  "select_message rows i = find (\<lambda>m. ID m = i \<and> DeletedAt m = None) rows"

definition messagePreloads :: "database \<Rightarrow> Message \<Rightarrow> Message" where
  "messagePreloads d m =
     m\<lparr>Stamps := filter (\<lambda>s. ms_MessageID s = ID m) (messages_stamps d),
       Pin := find (\<lambda>p. pin_MessageID p = ID m) (pins d)\<rparr>"

definition gorm_First_Message ::
  "bool \<Rightarrow> uuid \<Rightarrow> database \<Rightarrow> env \<Rightarrow> (error + Message) \<times> env" where
  "gorm_First_Message preload i d e =
     (case substrate e of
        (Some c, e1) \<Rightarrow> (Inl (ErrStorage c), e1)
      | (None, e1) \<Rightarrow>
          (case select_message (messages d) i of
             None \<Rightarrow> (Inl ErrRecordNotFound, e1)
           | Some m \<Rightarrow> (Inr (if preload then messagePreloads d m else m), e1)))"

text \<open>
  Modelled from the spec: \<^verbatim>\<open>convertError\<close>, a helper of the repository package that is
  not among the sources. The spec: failures are returned to the caller unwrapped "except
  for a translation step that maps substrate-specific "no rows" signals to NotFound". The
  legacy file writes the same translation inline (\<^verbatim>\<open>gorm.IsRecordNotFoundError\<close>).
\<close>

definition convertError :: "error \<Rightarrow> error" where
  "convertError err = (if err = ErrRecordNotFound then ErrNotFound else err)"

text \<open>
  \<^verbatim>\<open>db.Transaction(fc)\<close>: begin, run \<^verbatim>\<open>fc\<close> on the transaction, commit. A failed begin
  returns its error without running \<^verbatim>\<open>fc\<close>; an error (or panic) of \<^verbatim>\<open>fc\<close> and a failed
  commit roll the tables back. The second component is the value of the Go variables
  the closure captures and assigns: \<open>v0\<close> before \<^verbatim>\<open>fc\<close> has run.
\<close>

definition Transaction ::
  "'v \<Rightarrow> (database \<Rightarrow> env \<Rightarrow> error option \<times> 'v \<times> database \<times> env) \<Rightarrow>
   database \<Rightarrow> env \<Rightarrow> error option \<times> 'v \<times> database \<times> env" where
  "Transaction v0 fc d e =
     (case substrate e of
        (Some c, e1) \<Rightarrow> (Some (ErrStorage c), v0, d, e1)
      | (None, e1) \<Rightarrow>
          (case fc d e1 of
             (Some err, v, d1, e2) \<Rightarrow> (Some err, v, d, e2)
           | (None, v, d1, e2) \<Rightarrow>
               (case substrate e2 of
                  (Some c, e3) \<Rightarrow> (Some (ErrStorage c), v, d, e3)
                | (None, e3) \<Rightarrow> (None, v, d1, e3))))"

section \<open>The notifier hub\<close>

text \<open>
  \<^verbatim>\<open>message.Parse\<close> is a parameter of the model: of its result the repository reads the
  citations only.
\<close>

record ParseResult =
  Citation :: "uuid list"

datatype event =
    MessageCreated uuid Message ParseResult
  | MessageCited uuid Message "uuid list"
  | MessageUpdated uuid Message Message
  | MessageDeleted uuid Message "Unread list"
  | MessageUnread uuid uuid bool
  | MessageStamped uuid uuid uuid int timestamp
  | MessageUnstamped uuid uuid uuid

record repo =
  db :: database
  hub :: "event list"

definition Publish :: "event \<Rightarrow> repo \<Rightarrow> repo" where
  "Publish ev r = r\<lparr>hub := hub r @ [ev]\<rparr>"

section \<open>CreateMessage and GetMessageByID\<close>

definition CreateMessage_tx ::
  "Message \<Rightarrow> database \<Rightarrow> env \<Rightarrow> error option \<times> Message \<times> database \<times> env" where
  "CreateMessage_tx m d e =
     (case gorm_Create_Message m d e of
        (Some err, m1, d1, e1) \<Rightarrow> (Some err, m1, d1, e1)
      | (None, m1, d1, e1) \<Rightarrow>
          let clm = \<lparr>clm_ChannelID = ChannelID m1, clm_MessageID = ID m1,
                     clm_DateTime = CreatedAt m1\<rparr>
          in (case gorm_Upsert_ChannelLatestMessage clm d1 e1 of
                (err, d2, e2) \<Rightarrow> (err, m1, d2, e2)))"

text \<open>
  The literal \<^verbatim>\<open>&model.Message{ID: ..., UserID: userID, ChannelID: channelID, Text: text,
  Stamps: []model.MessageStamp{}}\<close>: the other fields have their zero values.
\<close>

definition new_Message :: "uuid \<Rightarrow> uuid \<Rightarrow> uuid \<Rightarrow> string \<Rightarrow> Message" where
  "new_Message i userID channelID text =
     \<lparr>ID = i, UserID = userID, ChannelID = channelID, Text = text,
      CreatedAt = 0, UpdatedAt = 0, DeletedAt = None, Stamps = [], Pin = None\<rparr>"

definition CreateMessage ::
  "(string \<Rightarrow> ParseResult) \<Rightarrow> uuid \<Rightarrow> uuid \<Rightarrow> string \<Rightarrow> repo \<Rightarrow> env \<Rightarrow>
   (error + Message) \<times> repo \<times> env" where
  "CreateMessage Parse userID channelID text r e =
     (if userID = uuid_Nil \<or> channelID = uuid_Nil then (Inl ErrNilID, r, e)
      else case NewV4 e of
        None \<Rightarrow> (Inl Panic, r, e)
      | Some (i, e0) \<Rightarrow>
          let m = new_Message i userID channelID text
          in (case Transaction m (CreateMessage_tx m) (db r) e0 of
                (Some err, m1, d1, e1) \<Rightarrow> (Inl err, r\<lparr>db := d1\<rparr>, e1)
              | (None, m1, d1, e1) \<Rightarrow>
                  let parseResult = Parse text;
                      r1 = Publish (MessageCreated (ID m1) m1 parseResult) (r\<lparr>db := d1\<rparr>);
                      r2 = (if length (Citation parseResult) > 0
                            then Publish (MessageCited (ID m1) m1 (Citation parseResult)) r1
                            else r1)
                  in (Inr m1, r2, e1)))"

definition GetMessageByID :: "uuid \<Rightarrow> repo \<Rightarrow> env \<Rightarrow> (error + Message) \<times> env" where
  "GetMessageByID messageID r e =
     (if messageID = uuid_Nil then (Inl ErrNotFound, e)
      else case gorm_First_Message True messageID (db r) e of
        (Inl err, e1) \<Rightarrow> (Inl (convertError err), e1)
      | (Inr message, e1) \<Rightarrow> (Inr message, e1))"

text \<open>
  The legacy variant of the read (\<^verbatim>\<open>repository/message_impl.go\<close>): no preloading scope, and
  the translation of "no rows" written inline.
\<close>

definition GetMessageByID_legacy :: "uuid \<Rightarrow> repo \<Rightarrow> env \<Rightarrow> (error + Message) \<times> env" where
  "GetMessageByID_legacy messageID r e =
     (if messageID = uuid_Nil then (Inl ErrNotFound, e)
      else case gorm_First_Message False messageID (db r) e of
        (Inl err, e1) \<Rightarrow> (if err = ErrRecordNotFound then (Inl ErrNotFound, e1) else (Inl err, e1))
      | (Inr message, e1) \<Rightarrow> (Inr message, e1))"

section \<open>UpdateMessage\<close>

text \<open>\<^verbatim>\<open>tx.Create(&model.ArchivedMessage{...})\<close>: a plain insert; the row has no automatic times.\<close>

definition gorm_Create_ArchivedMessage ::
  "ArchivedMessage \<Rightarrow> database \<Rightarrow> env \<Rightarrow> error option \<times> database \<times> env" where
  "gorm_Create_ArchivedMessage a d e =
     (case substrate e of
        (Some c, e1) \<Rightarrow> (Some (ErrStorage c), d, e1)
      | (None, e1) \<Rightarrow>
          (if am_ID a \<in> set (map am_ID (archived_messages d))
           then (Some ErrDuplicatedKey, d, e1)
           else (None, d\<lparr>archived_messages := archived_messages d @ [a]\<rparr>, e1)))"

text \<open>
  \<^verbatim>\<open>tx.Model(&old).Update("text", text)\<close>:
  \<^verbatim>\<open>UPDATE messages SET text = ?, updated_at = ? WHERE id = ? AND deleted_at IS NULL\<close>, the
  id being that of \<^verbatim>\<open>old\<close>. gorm assigns the two values to the struct behind
  \<^verbatim>\<open>Model\<close> as well, so \<^verbatim>\<open>old\<close> comes back carrying them.
\<close>

definition gorm_Update_Message_text ::
  "Message \<Rightarrow> string \<Rightarrow> database \<Rightarrow> env \<Rightarrow> error option \<times> Message \<times> database \<times> env" where
  "gorm_Update_Message_text old text d e =
     (case time_Now e of (t, e1) \<Rightarrow>
        let old1 = old\<lparr>Text := text, UpdatedAt := t\<rparr>
        in (case substrate e1 of
              (Some c, e2) \<Rightarrow> (Some (ErrStorage c), old1, d, e2)
            | (None, e2) \<Rightarrow>
                (None, old1,
                 d\<lparr>messages :=
                     map (\<lambda>m. if ID m = ID old \<and> DeletedAt m = None
                              then m\<lparr>Text := text, UpdatedAt := t\<rparr> else m)
                       (messages d)\<rparr>,
                 e2)))"

text \<open>The zero value of \<^verbatim>\<open>model.Message\<close>, as \<^verbatim>\<open>var old model.Message\<close> declares it.\<close>

definition zero_Message :: Message where
  "zero_Message = \<lparr>ID = 0, UserID = 0, ChannelID = 0, Text = [], CreatedAt = 0,
     UpdatedAt = 0, DeletedAt = None, Stamps = [], Pin = None\<rparr>"

text \<open>The closure of \<^verbatim>\<open>UpdateMessage\<close>; it assigns the captured \<^verbatim>\<open>old\<close> and \<^verbatim>\<open>new\<close>.\<close>

definition UpdateMessage_tx ::
  "uuid \<Rightarrow> string \<Rightarrow> database \<Rightarrow> env \<Rightarrow>
   error option \<times> (Message \<times> Message) \<times> database \<times> env" where
  "UpdateMessage_tx messageID text d e =
     (case gorm_First_Message False messageID d e of
        (Inl err, e1) \<Rightarrow> (Some (convertError err), (zero_Message, zero_Message), d, e1)
      | (Inr old, e1) \<Rightarrow>
          (case NewV4 e1 of
             None \<Rightarrow> (Some Panic, (old, zero_Message), d, e1)
           | Some (aid, e2) \<Rightarrow>
               (case gorm_Create_ArchivedMessage
                       \<lparr>am_ID = aid, am_MessageID = ID old, am_UserID = UserID old,
                        am_Text = Text old, am_DateTime = UpdatedAt old\<rparr> d e2 of
                  (Some err, d1, e3) \<Rightarrow> (Some err, (old, zero_Message), d1, e3)
                | (None, d1, e3) \<Rightarrow>
                    (case gorm_Update_Message_text old text d1 e3 of
                       (Some err, old1, d2, e4) \<Rightarrow> (Some err, (old1, zero_Message), d2, e4)
                     | (None, old1, d2, e4) \<Rightarrow>
                         (case gorm_First_Message False messageID d2 e4 of
                            (Inl err, e5) \<Rightarrow> (Some err, (old1, zero_Message), d2, e5)
                          | (Inr new, e5) \<Rightarrow> (None, (old1, new), d2, e5))))))"

definition UpdateMessage ::
  "uuid \<Rightarrow> string \<Rightarrow> repo \<Rightarrow> env \<Rightarrow> (error + unit) \<times> repo \<times> env" where
  "UpdateMessage messageID text r e =
     (if messageID = uuid_Nil then (Inl ErrNilID, r, e)
      else case Transaction (zero_Message, zero_Message) (UpdateMessage_tx messageID text)
                  (db r) e of
        (Some err, (old, new), d1, e1) \<Rightarrow> (Inl err, r\<lparr>db := d1\<rparr>, e1)
      | (None, (old, new), d1, e1) \<Rightarrow>
          (Inr (), Publish (MessageUpdated messageID old new) (r\<lparr>db := d1\<rparr>), e1))"

text \<open>
  The legacy variant of the update (\<^verbatim>\<open>repository/message_impl.go\<close>): it refuses an empty
  text with \<^verbatim>\<open>errors.New("text is empty")\<close> before it opens the transaction, translates
  "no rows" inline, and publishes under the flag \<^verbatim>\<open>ok\<close> that the closure sets.
\<close>

text \<open>
  Modelled from the spec: \<^verbatim>\<open>repo.transact\<close>, a helper of the legacy repository that is not
  among the sources. The spec: "Each mutating operation is wrapped in exactly one database
  transaction that is the unit of atomicity and isolation", a failure inside which causes
  "immediate rollback".
\<close>

definition transact ::
  "'v \<Rightarrow> (database \<Rightarrow> env \<Rightarrow> error option \<times> 'v \<times> database \<times> env) \<Rightarrow>
   database \<Rightarrow> env \<Rightarrow> error option \<times> 'v \<times> database \<times> env" where
  "transact v0 fc d e = Transaction v0 fc d e"

definition UpdateMessage_legacy_tx ::
  "uuid \<Rightarrow> string \<Rightarrow> database \<Rightarrow> env \<Rightarrow>
   error option \<times> (Message \<times> Message \<times> bool) \<times> database \<times> env" where
  "UpdateMessage_legacy_tx messageID text d e =
     (case gorm_First_Message False messageID d e of
        (Inl err, e1) \<Rightarrow>
          (if err = ErrRecordNotFound
           then (Some ErrNotFound, (zero_Message, zero_Message, False), d, e1)
           else (Some err, (zero_Message, zero_Message, False), d, e1))
      | (Inr old, e1) \<Rightarrow>
          (case NewV4 e1 of
             None \<Rightarrow> (Some Panic, (old, zero_Message, False), d, e1)
           | Some (aid, e2) \<Rightarrow>
               (case gorm_Create_ArchivedMessage
                       \<lparr>am_ID = aid, am_MessageID = ID old, am_UserID = UserID old,
                        am_Text = Text old, am_DateTime = UpdatedAt old\<rparr> d e2 of
                  (Some err, d1, e3) \<Rightarrow> (Some err, (old, zero_Message, False), d1, e3)
                | (None, d1, e3) \<Rightarrow>
                    (case gorm_Update_Message_text old text d1 e3 of
                       (Some err, old1, d2, e4) \<Rightarrow>
                         (Some err, (old1, zero_Message, False), d2, e4)
                     | (None, old1, d2, e4) \<Rightarrow>
                         (case gorm_First_Message False messageID d2 e4 of
                            (Inl err, e5) \<Rightarrow> (Some err, (old1, zero_Message, True), d2, e5)
                          | (Inr new, e5) \<Rightarrow> (None, (old1, new, True), d2, e5))))))"

definition UpdateMessage_legacy ::
  "uuid \<Rightarrow> string \<Rightarrow> repo \<Rightarrow> env \<Rightarrow> (error + unit) \<times> repo \<times> env" where
  "UpdateMessage_legacy messageID text r e =
     (if messageID = uuid_Nil then (Inl ErrNilID, r, e)
      else if length text = 0 then (Inl ErrTextEmpty, r, e)
      else case transact (zero_Message, zero_Message, False)
                  (UpdateMessage_legacy_tx messageID text) (db r) e of
        (Some err, (old, new, ok), d1, e1) \<Rightarrow> (Inl err, r\<lparr>db := d1\<rparr>, e1)
      | (None, (old, new, ok), d1, e1) \<Rightarrow>
          (if ok
           then (Inr (), Publish (MessageUpdated messageID old new) (r\<lparr>db := d1\<rparr>), e1)
           else (Inr (), r\<lparr>db := d1\<rparr>, e1)))"

section \<open>DeleteMessage\<close>

text \<open>\<^verbatim>\<open>tx.Find(&unreads, &model.Unread{MessageID: messageID})\<close>.\<close>

definition gorm_Find_Unreads_by_message ::
  "uuid \<Rightarrow> database \<Rightarrow> env \<Rightarrow> (error + Unread list) \<times> env" where
  "gorm_Find_Unreads_by_message messageID d e =
     (case substrate e of
        (Some c, e1) \<Rightarrow> (Inl (ErrStorage c), e1)
      | (None, e1) \<Rightarrow> (Inr (filter (\<lambda>u. ur_MessageID u = messageID) (unreads d)), e1))"

text \<open>
  \<^verbatim>\<open>tx.Delete(&m)\<close> on a message, a soft delete:
  \<^verbatim>\<open>UPDATE messages SET deleted_at = ? WHERE id = ? AND deleted_at IS NULL\<close>.
\<close>

definition gorm_Delete_Message ::
  "Message \<Rightarrow> database \<Rightarrow> env \<Rightarrow> error option \<times> database \<times> env" where
  "gorm_Delete_Message m d e =
     (case time_Now e of (t, e1) \<Rightarrow>
        (case substrate e1 of
           (Some c, e2) \<Rightarrow> (Some (ErrStorage c), d, e2)
         | (None, e2) \<Rightarrow>
             (None,
              d\<lparr>messages :=
                  map (\<lambda>x. if ID x = ID m \<and> DeletedAt x = None
                           then x\<lparr>DeletedAt := Some t\<rparr> else x)
                    (messages d)\<rparr>,
              e2)))"

text \<open>
  The three cascading deletes, \<^verbatim>\<open>DELETE FROM t WHERE message_id = ?\<close> on \<^verbatim>\<open>unreads\<close>,
  \<^verbatim>\<open>pins\<close> and \<^verbatim>\<open>clip_folder_messages\<close>: rows without a \<^verbatim>\<open>DeletedAt\<close> column are removed.
\<close>

definition gorm_Delete_Unreads_by_message ::
  "uuid \<Rightarrow> database \<Rightarrow> env \<Rightarrow> error option \<times> database \<times> env" where
  "gorm_Delete_Unreads_by_message messageID d e =
     (case substrate e of
        (Some c, e1) \<Rightarrow> (Some (ErrStorage c), d, e1)
      | (None, e1) \<Rightarrow>
          (None, d\<lparr>unreads := filter (\<lambda>u. ur_MessageID u \<noteq> messageID) (unreads d)\<rparr>, e1))"

definition gorm_Delete_Pins_by_message ::
  "uuid \<Rightarrow> database \<Rightarrow> env \<Rightarrow> error option \<times> database \<times> env" where
  "gorm_Delete_Pins_by_message messageID d e =
     (case substrate e of
        (Some c, e1) \<Rightarrow> (Some (ErrStorage c), d, e1)
      | (None, e1) \<Rightarrow>
          (None, d\<lparr>pins := filter (\<lambda>p. pin_MessageID p \<noteq> messageID) (pins d)\<rparr>, e1))"

definition gorm_Delete_ClipFolderMessages_by_message ::
  "uuid \<Rightarrow> database \<Rightarrow> env \<Rightarrow> error option \<times> database \<times> env" where
  "gorm_Delete_ClipFolderMessages_by_message messageID d e =
     (case substrate e of
        (Some c, e1) \<Rightarrow> (Some (ErrStorage c), d, e1)
      | (None, e1) \<Rightarrow>
          (None,
           d\<lparr>clip_folder_messages :=
               filter (\<lambda>c. cfm_MessageID c \<noteq> messageID) (clip_folder_messages d)\<rparr>,
           e1))"

text \<open>The closure of \<^verbatim>\<open>DeleteMessage\<close>; it assigns the captured \<^verbatim>\<open>m\<close> and \<^verbatim>\<open>unreads\<close>.\<close>

definition DeleteMessage_tx ::
  "uuid \<Rightarrow> database \<Rightarrow> env \<Rightarrow> error option \<times> (Message \<times> Unread list) \<times> database \<times> env" where
  "DeleteMessage_tx messageID d e =
     (case gorm_First_Message False messageID d e of
        (Inl err, e1) \<Rightarrow> (Some (convertError err), (zero_Message, []), d, e1)
      | (Inr m, e1) \<Rightarrow>
          (case gorm_Find_Unreads_by_message messageID d e1 of
             (Inl err, e2) \<Rightarrow> (Some err, (m, []), d, e2)
           | (Inr us, e2) \<Rightarrow>
               (case gorm_Delete_Message m d e2 of
                  (Some err, d1, e3) \<Rightarrow> (Some err, (m, us), d1, e3)
                | (None, d1, e3) \<Rightarrow>
                    (case gorm_Delete_Unreads_by_message messageID d1 e3 of
                       (Some err, d2, e4) \<Rightarrow> (Some err, (m, us), d2, e4)
                     | (None, d2, e4) \<Rightarrow>
                         (case gorm_Delete_Pins_by_message messageID d2 e4 of
                            (Some err, d3, e5) \<Rightarrow> (Some err, (m, us), d3, e5)
                          | (None, d3, e5) \<Rightarrow>
                              (case gorm_Delete_ClipFolderMessages_by_message messageID d3 e5 of
                                 (Some err, d4, e6) \<Rightarrow> (Some err, (m, us), d4, e6)
                               | (None, d4, e6) \<Rightarrow> (None, (m, us), d4, e6)))))))"

definition DeleteMessage :: "uuid \<Rightarrow> repo \<Rightarrow> env \<Rightarrow> (error + unit) \<times> repo \<times> env" where
  "DeleteMessage messageID r e =
     (if messageID = uuid_Nil then (Inl ErrNilID, r, e)
      else case Transaction (zero_Message, []) (DeleteMessage_tx messageID) (db r) e of
        (Some err, (m, us), d1, e1) \<Rightarrow> (Inl err, r\<lparr>db := d1\<rparr>, e1)
      | (None, (m, us), d1, e1) \<Rightarrow>
          (Inr (), Publish (MessageDeleted messageID m us) (r\<lparr>db := d1\<rparr>), e1))"

section \<open>GetMessages\<close>

text \<open>Go's \<^verbatim>\<open>int\<close> is a signed 64-bit integer: \<open>+\<close> wraps, \<open>sint\<close> reads the value.\<close>

type_synonym go_int = "64 word"

text \<open>
  Modelled from the spec: \<^verbatim>\<open>MessagesQuery\<close>, declared outside the sources. Its fields are
  those \<^verbatim>\<open>GetMessages\<close> reads, the filters the spec lists: "channel scope, author scope,
  subscription-based channel scope, public-only filtering, inclusive/exclusive time-window
  bounds, ascending/descending order, offset, and limit". An invalid \<^verbatim>\<open>optional.Time\<close>
  is \<open>None\<close>.
\<close>

record MessagesQuery =
  User :: uuid
  Channel :: uuid
  ChannelsSubscribedByUser :: uuid
  Since :: "timestamp option"
  Until :: "timestamp option"
  Inclusive :: bool
  Limit :: go_int
  Offset :: go_int
  Asc :: bool
  ExcludeDMs :: bool
  DisablePreload :: bool

text \<open>
  The conditions \<^verbatim>\<open>GetMessages\<close> adds with \<^verbatim>\<open>Where\<close>, in the order of the source:
  \<^verbatim>\<open>messages.channel_id = ?\<close>, \<^verbatim>\<open>messages.user_id = ?\<close>, the subscription condition
  (\<^verbatim>\<open>channels.is_forced = TRUE OR channels.id IN (SELECT s.channel_id FROM
  users_subscribe_channels s WHERE s.user_id = ?)\<close>), the four bounds on
  \<^verbatim>\<open>messages.created_at\<close>, and \<^verbatim>\<open>channels.is_public = true\<close>.
\<close>

datatype cond =
    Where_channel_id uuid
  | Where_user_id uuid
  | Where_subscribed_by uuid
  | Where_created_at_ge timestamp
  | Where_created_at_le timestamp
  | Where_created_at_gt timestamp
  | Where_created_at_lt timestamp
  | Where_is_public

text \<open>
  A gorm statement under construction: the clauses the chained calls have added. Limit
  and offset are kept as given; they reach the SQL only when positive.
\<close>

record stmt =
  st_preload :: bool
  st_order_desc :: bool
  st_offset :: go_int
  st_limit :: go_int
  st_join_channels :: bool
  st_where :: "cond list"

definition stmt_db :: stmt where
  "stmt_db = \<lparr>st_preload = False, st_order_desc = False, st_offset = 0, st_limit = 0,
     st_join_channels = False, st_where = []\<rparr>"

definition stmt_Scopes_messagePreloads :: "stmt \<Rightarrow> stmt" where
  "stmt_Scopes_messagePreloads tx = tx\<lparr>st_preload := True\<rparr>"

definition stmt_Order_created_at :: "bool \<Rightarrow> stmt \<Rightarrow> stmt" where
  "stmt_Order_created_at desc tx = tx\<lparr>st_order_desc := desc\<rparr>"

definition stmt_Offset :: "go_int \<Rightarrow> stmt \<Rightarrow> stmt" where
  "stmt_Offset n tx = tx\<lparr>st_offset := n\<rparr>"

definition stmt_Limit :: "go_int \<Rightarrow> stmt \<Rightarrow> stmt" where
  "stmt_Limit n tx = tx\<lparr>st_limit := n\<rparr>"

definition stmt_Joins_channels :: "stmt \<Rightarrow> stmt" where
  "stmt_Joins_channels tx = tx\<lparr>st_join_channels := True\<rparr>"

definition stmt_Where :: "cond \<Rightarrow> stmt \<Rightarrow> stmt" where
  "stmt_Where c tx = tx\<lparr>st_where := st_where tx @ [c]\<rparr>"

text \<open>
  A condition on a row of the statement: a message and, under
  \<^verbatim>\<open>INNER JOIN channels ON messages.channel_id = channels.id\<close>, its channel. The source
  adds the two conditions on \<^verbatim>\<open>channels\<close> only together with the join.
\<close>

fun holds :: "database \<Rightarrow> cond \<Rightarrow> Message \<times> Channel option \<Rightarrow> bool" where
  "holds d (Where_channel_id c) (m, _) = (ChannelID m = c)"
| "holds d (Where_user_id u) (m, _) = (UserID m = u)"
| "holds d (Where_subscribed_by u) (m, Some c) =
     (ch_IsForced c \<or>
      ch_ID c \<in> set (map usc_ChannelID
                        (filter (\<lambda>s. usc_UserID s = u) (users_subscribe_channels d))))"
| "holds d (Where_subscribed_by u) (m, None) = False"
| "holds d (Where_created_at_ge t) (m, _) = (t \<le> CreatedAt m)"
| "holds d (Where_created_at_le t) (m, _) = (CreatedAt m \<le> t)"
| "holds d (Where_created_at_gt t) (m, _) = (t < CreatedAt m)"
| "holds d (Where_created_at_lt t) (m, _) = (CreatedAt m < t)"
| "holds d Where_is_public (m, Some c) = ch_IsPublic c"
| "holds d Where_is_public (m, None) = False"

text \<open>
  The rows \<^verbatim>\<open>Find\<close> selects before \<^verbatim>\<open>LIMIT\<close>: the messages that are not soft-deleted,
  joined with their channels when the statement joins, kept when every condition holds,
  ordered by \<^verbatim>\<open>messages.created_at\<close> (rows of equal time in table order, reversed under
  \<^verbatim>\<open>DESC\<close>), and without the first \<^verbatim>\<open>OFFSET\<close> rows.
\<close>

definition stmt_rows :: "stmt \<Rightarrow> database \<Rightarrow> (Message \<times> Channel option) list" where
  "stmt_rows tx d =
     (let live = filter (\<lambda>m. DeletedAt m = None) (messages d);
          joined = (if st_join_channels tx
                    then concat (map (\<lambda>m. map (\<lambda>c. (m, Some c))
                                   (filter (\<lambda>c. ch_ID c = ChannelID m) (channels d))) live)
                    else map (\<lambda>m. (m, None)) live)
      in filter (\<lambda>row. list_all (\<lambda>c. holds d c row) (st_where tx)) joined)"

definition matching :: "stmt \<Rightarrow> database \<Rightarrow> Message list" where
  "matching tx d =
     (let sorted = sort_key CreatedAt (map fst (stmt_rows tx d));
          ordered = (if st_order_desc tx then rev sorted else sorted)
      in if 0 <s st_offset tx then drop (nat (sint (st_offset tx))) ordered else ordered)"

text \<open>
  \<^verbatim>\<open>tx.Find(&messages)\<close>: the matching rows, at most \<^verbatim>\<open>LIMIT\<close> of them when the limit is
  positive, with the preloads of the statement. On a failure the destination slice is
  left as it was, empty.
\<close>

definition stmt_Find :: "stmt \<Rightarrow> database \<Rightarrow> env \<Rightarrow> Message list \<times> error option \<times> env" where
  "stmt_Find tx d e =
     (case substrate e of
        (Some c, e1) \<Rightarrow> ([], Some (ErrStorage c), e1)
      | (None, e1) \<Rightarrow>
          (let rows = matching tx d;
               page = (if 0 <s st_limit tx then take (nat (sint (st_limit tx))) rows else rows)
           in (if st_preload tx then map (messagePreloads d) page else page, None, e1)))"

text \<open>
  \<^verbatim>\<open>tx.Limit(...).Raw("SELECT messages.* FROM messages USE INDEX (...) INNER JOIN channels
  ON messages.channel_id = channels.id WHERE messages.deleted_at IS NULL AND
  channels.is_public = true").Scan(&messages)\<close>. \<^verbatim>\<open>Raw\<close> sets the SQL of the statement, and
  gorm.io/gorm builds SQL from the clauses of a statement only when the statement has no
  SQL yet: the text given to \<^verbatim>\<open>Raw\<close> is sent as it stands, and the order, offset, limit
  and preloads chained before it take no part. The text has no \<^verbatim>\<open>ORDER BY\<close>; the rows
  come in table order here.
\<close>

definition stmt_Raw_public_messages_Scan ::
  "stmt \<Rightarrow> database \<Rightarrow> env \<Rightarrow> Message list \<times> error option \<times> env" where
  "stmt_Raw_public_messages_Scan tx d e =
     (case substrate e of
        (Some c, e1) \<Rightarrow> ([], Some (ErrStorage c), e1)
      | (None, e1) \<Rightarrow>
          (concat (map (\<lambda>m. map (\<lambda>c. m)
                     (filter (\<lambda>c. ch_ID c = ChannelID m \<and> DeletedAt m = None \<and> ch_IsPublic c)
                        (channels d)))
                   (messages d)),
           None, e1))"

definition GetMessages ::
  "MessagesQuery \<Rightarrow> repo \<Rightarrow> env \<Rightarrow> (Message list \<times> bool \<times> error option) \<times> env" where
  "GetMessages query r e =
     (let tx = stmt_db;
          tx = (if \<not> DisablePreload query then stmt_Scopes_messagePreloads tx else tx);
          tx = (if Asc query then stmt_Order_created_at False tx
                else stmt_Order_created_at True tx);
          tx = (if 0 <s Offset query then stmt_Offset (Offset query) tx else tx)
      in
      if ExcludeDMs query \<and> Channel query = uuid_Nil \<and> User query = uuid_Nil \<and>
         ChannelsSubscribedByUser query = uuid_Nil \<and> Since query = None \<and>
         Until query = None \<and> 0 <s Limit query
      then
        (case stmt_Raw_public_messages_Scan (stmt_Limit (Limit query + 1) tx) (db r) e of
           (msgs, err, e1) \<Rightarrow>
             (if sint (Limit query) < int (length msgs)
              then ((butlast msgs, True, err), e1)
              else ((msgs, False, err), e1)))
      else
        (let tx = (if ChannelsSubscribedByUser query \<noteq> uuid_Nil \<or> ExcludeDMs query
                   then stmt_Joins_channels tx else tx);
             tx = (if Channel query \<noteq> uuid_Nil
                   then stmt_Where (Where_channel_id (Channel query)) tx else tx);
             tx = (if User query \<noteq> uuid_Nil
                   then stmt_Where (Where_user_id (User query)) tx else tx);
             tx = (if ChannelsSubscribedByUser query \<noteq> uuid_Nil
                   then stmt_Where (Where_subscribed_by (ChannelsSubscribedByUser query)) tx
                   else tx);
             tx = (if Inclusive query
                   then (let tx = (case Since query of
                                     Some t \<Rightarrow> stmt_Where (Where_created_at_ge t) tx
                                   | None \<Rightarrow> tx)
                         in (case Until query of
                               Some t \<Rightarrow> stmt_Where (Where_created_at_le t) tx
                             | None \<Rightarrow> tx))
                   else (let tx = (case Since query of
                                     Some t \<Rightarrow> stmt_Where (Where_created_at_gt t) tx
                                   | None \<Rightarrow> tx)
                         in (case Until query of
                               Some t \<Rightarrow> stmt_Where (Where_created_at_lt t) tx
                             | None \<Rightarrow> tx)));
             tx = (if ExcludeDMs query then stmt_Where Where_is_public tx else tx)
         in
         if 0 <s Limit query
         then
           (case stmt_Find (stmt_Limit (Limit query + 1) tx) (db r) e of
              (msgs, err, e1) \<Rightarrow>
                (if sint (Limit query) < int (length msgs)
                 then ((butlast msgs, True, err), e1)
                 else ((msgs, False, err), e1)))
         else
           (case stmt_Find tx (db r) e of
              (msgs, err, e1) \<Rightarrow> ((msgs, False, err), e1))))"

section \<open>SetMessageUnread\<close>

text \<open>
  \<^verbatim>\<open>tx.First(&u, &model.Unread{UserID: userID, MessageID: messageID})\<close>,
  \<^verbatim>\<open>tx.Create(&model.Unread{...})\<close> (the primary key is the pair of ids) and
  \<^verbatim>\<open>tx.Model(&u).Update("noticeable", noticeable)\<close>, which updates the row with the
  primary key of \<^verbatim>\<open>u\<close>.
\<close>

definition gorm_First_Unread ::
  "uuid \<Rightarrow> uuid \<Rightarrow> database \<Rightarrow> env \<Rightarrow> (error + Unread) \<times> env" where
  "gorm_First_Unread userID messageID d e =
     (case substrate e of
        (Some c, e1) \<Rightarrow> (Inl (ErrStorage c), e1)
      | (None, e1) \<Rightarrow>
          (case find (\<lambda>u. ur_UserID u = userID \<and> ur_MessageID u = messageID) (unreads d) of
             None \<Rightarrow> (Inl ErrRecordNotFound, e1)
           | Some u \<Rightarrow> (Inr u, e1)))"

definition gorm_Create_Unread ::
  "Unread \<Rightarrow> database \<Rightarrow> env \<Rightarrow> error option \<times> database \<times> env" where
  "gorm_Create_Unread u d e =
     (case substrate e of
        (Some c, e1) \<Rightarrow> (Some (ErrStorage c), d, e1)
      | (None, e1) \<Rightarrow>
          (if (ur_UserID u, ur_MessageID u)
                \<in> set (map (\<lambda>x. (ur_UserID x, ur_MessageID x)) (unreads d))
           then (Some ErrDuplicatedKey, d, e1)
           else (None, d\<lparr>unreads := unreads d @ [u]\<rparr>, e1)))"

definition gorm_Update_Unread_noticeable ::
  "Unread \<Rightarrow> bool \<Rightarrow> database \<Rightarrow> env \<Rightarrow> error option \<times> database \<times> env" where
  "gorm_Update_Unread_noticeable u noticeable d e =
     (case substrate e of
        (Some c, e1) \<Rightarrow> (Some (ErrStorage c), d, e1)
      | (None, e1) \<Rightarrow>
          (None,
           d\<lparr>unreads :=
               map (\<lambda>x. if ur_UserID x = ur_UserID u \<and> ur_MessageID x = ur_MessageID u
                        then x\<lparr>ur_Noticeable := noticeable\<rparr> else x)
                 (unreads d)\<rparr>,
           e1))"

text \<open>The closure of \<^verbatim>\<open>SetMessageUnread\<close>; it assigns the captured \<^verbatim>\<open>update\<close>.\<close>

definition SetMessageUnread_tx ::
  "uuid \<Rightarrow> uuid \<Rightarrow> bool \<Rightarrow> database \<Rightarrow> env \<Rightarrow> error option \<times> bool \<times> database \<times> env" where
  "SetMessageUnread_tx userID messageID noticeable d e =
     (case gorm_First_Unread userID messageID d e of
        (Inl err, e1) \<Rightarrow>
          (if err = ErrRecordNotFound
           then (case gorm_Create_Unread
                         \<lparr>ur_UserID = userID, ur_MessageID = messageID,
                          ur_Noticeable = noticeable\<rparr> d e1 of
                   (err1, d1, e2) \<Rightarrow> (err1, False, d1, e2))
           else (Some err, False, d, e1))
      | (Inr u, e1) \<Rightarrow>
          (case gorm_Update_Unread_noticeable u noticeable d e1 of
             (err1, d1, e2) \<Rightarrow> (err1, True, d1, e2)))"

definition SetMessageUnread ::
  "uuid \<Rightarrow> uuid \<Rightarrow> bool \<Rightarrow> repo \<Rightarrow> env \<Rightarrow> (error + unit) \<times> repo \<times> env" where
  "SetMessageUnread userID messageID noticeable r e =
     (if userID = uuid_Nil \<or> messageID = uuid_Nil then (Inl ErrNilID, r, e)
      else case Transaction False (SetMessageUnread_tx userID messageID noticeable) (db r) e of
        (Some err, update, d1, e1) \<Rightarrow> (Inl err, r\<lparr>db := d1\<rparr>, e1)
      | (None, update, d1, e1) \<Rightarrow>
          (if \<not> update
           then (Inr (), Publish (MessageUnread messageID userID noticeable) (r\<lparr>db := d1\<rparr>), e1)
           else (Inr (), r\<lparr>db := d1\<rparr>, e1)))"

section \<open>GetChannelLatestMessagesByUserID\<close>



section \<open>AddStampToMessage and RemoveStampFromMessage\<close>







section \<open>Notions the statements use\<close>

text \<open>The next \<open>n\<close> statements sent to the substrate do not fail.\<close>

definition healthy :: "nat \<Rightarrow> env \<Rightarrow> bool" where
  "healthy n e = list_all (\<lambda>f. f = None) (take n (faults e))"






text \<open>
  The two paths of \<^verbatim>\<open>GetMessages\<close>: the test that selects the index-forcing raw query,
  and the statement the query builder has assembled on the other path when \<^verbatim>\<open>Find\<close> is
  called (before the limit is added).
\<close>

definition index_forcing_path :: "MessagesQuery \<Rightarrow> bool" where
  "index_forcing_path query =
     (ExcludeDMs query \<and> Channel query = uuid_Nil \<and> User query = uuid_Nil \<and>
      ChannelsSubscribedByUser query = uuid_Nil \<and> Since query = None \<and>
      Until query = None \<and> 0 <s Limit query)"

definition built_stmt :: "MessagesQuery \<Rightarrow> stmt" where
  "built_stmt query =
     \<lparr>st_preload = (\<not> DisablePreload query),
      st_order_desc = (\<not> Asc query),
      st_offset = (if 0 <s Offset query then Offset query else 0),
      st_limit = 0,
      st_join_channels = (ChannelsSubscribedByUser query \<noteq> uuid_Nil \<or> ExcludeDMs query),
      st_where =
        (if Channel query \<noteq> uuid_Nil then [Where_channel_id (Channel query)] else []) @
        (if User query \<noteq> uuid_Nil then [Where_user_id (User query)] else []) @
        (if ChannelsSubscribedByUser query \<noteq> uuid_Nil
         then [Where_subscribed_by (ChannelsSubscribedByUser query)] else []) @
        (case Since query of
           None \<Rightarrow> []
         | Some t \<Rightarrow> [if Inclusive query then Where_created_at_ge t else Where_created_at_gt t]) @
        (case Until query of
           None \<Rightarrow> []
         | Some t \<Rightarrow> [if Inclusive query then Where_created_at_le t else Where_created_at_lt t]) @
        (if ExcludeDMs query then [Where_is_public] else [])\<rparr>"

section \<open>Example states\<close>

text \<open>
  Concrete values the theorems below are instantiated at: a store with no row, a parser
  that finds no citation, and an environment without failures whose entropy and clock
  are given.
\<close>

definition empty_database :: database where
  "empty_database = \<lparr>messages = [], archived_messages = [], channel_latest_messages = [],
     unreads = [], pins = [], clip_folder_messages = [], messages_stamps = [],
     channels = [], users_subscribe_channels = []\<rparr>"

definition no_citation :: "string \<Rightarrow> ParseResult" where
  "no_citation text = \<lparr>Citation = []\<rparr>"

definition calm_env :: "uuid list \<Rightarrow> timestamp \<Rightarrow> env" where
  "calm_env rs t = \<lparr>faults = [], entropy = rs, now = t, later = []\<rparr>"

text \<open>
  A store with one public channel (id 2) holding one message (id 7, by user 1), which
  is the channel's latest, is unread by user 9, pinned and clipped; user 9 has a second
  unread marker, for a message 8 that is not stored.
\<close>

definition sample_message :: Message where
  "sample_message = \<lparr>ID = 7, UserID = 1, ChannelID = 2, Text = ''old'', CreatedAt = 3,
     UpdatedAt = 3, DeletedAt = None, Stamps = [], Pin = None\<rparr>"

definition sample_database :: database where
  "sample_database = \<lparr>messages = [sample_message], archived_messages = [],
     channel_latest_messages = [\<lparr>clm_ChannelID = 2, clm_MessageID = 7, clm_DateTime = 3\<rparr>],
     unreads = [\<lparr>ur_UserID = 9, ur_MessageID = 7, ur_Noticeable = False\<rparr>,
                \<lparr>ur_UserID = 9, ur_MessageID = 8, ur_Noticeable = False\<rparr>],
     pins = [\<lparr>pin_ID = 20, pin_MessageID = 7, pin_UserID = 1\<rparr>],
     clip_folder_messages = [\<lparr>cfm_FolderID = 30, cfm_MessageID = 7\<rparr>],
     messages_stamps = [],
     channels = [\<lparr>ch_ID = 2, ch_IsPublic = True, ch_IsForced = False, ch_DeletedAt = None\<rparr>],
     users_subscribe_channels = []\<rparr>"

text \<open>An environment whose first statement (here: the begin of a transaction) fails.\<close>

definition failing_env :: env where
  "failing_env = \<lparr>faults = [Some 1], entropy = [0], now = 5, later = []\<rparr>"





text \<open>
  A store with three messages in the public channel 2, and the query of the activity
  feed with a limit of one.
\<close>

definition three_messages :: database where
  "three_messages = empty_database
     \<lparr>messages := [sample_message,
                     sample_message\<lparr>ID := 8, CreatedAt := 4, UpdatedAt := 4\<rparr>,
                     sample_message\<lparr>ID := 9, CreatedAt := 5, UpdatedAt := 5\<rparr>],
      channels := [\<lparr>ch_ID = 2, ch_IsPublic = True, ch_IsForced = False, ch_DeletedAt = None\<rparr>]\<rparr>"

definition activity_query :: MessagesQuery where
  "activity_query = \<lparr>User = 0, Channel = 0, ChannelsSubscribedByUser = 0, Since = None,
     Until = None, Inclusive = False, Limit = 1, Offset = 0, Asc = False, ExcludeDMs = True,
     DisablePreload = True\<rparr>"

section \<open>Auxiliary facts\<close>

lemma healthy_Suc:
  "healthy (Suc n) e \<Longrightarrow> \<exists>e1. substrate e = (None, e1) \<and> healthy n e1"
  by (cases "faults e") (auto simp: healthy_def substrate_def)



lemma Transaction_NoneD:
  "Transaction v0 fc d e = (None, v, d1, e1) \<Longrightarrow>
   \<exists>e0 e2. substrate e = (None, e0) \<and> fc d e0 = (None, v, d1, e2) \<and> substrate e2 = (None, e1)"
  by (auto simp: Transaction_def split: prod.splits option.splits)

lemma Transaction_SomeD:
  "Transaction v0 fc d e = (Some err, v, d1, e1) \<Longrightarrow> d1 = d"
  by (auto simp: Transaction_def split: prod.splits option.splits)


lemma new_Message_sel [simp]:
  "ID (new_Message i u c t) = i" "UserID (new_Message i u c t) = u"
  "ChannelID (new_Message i u c t) = c" "Text (new_Message i u c t) = t"
  "CreatedAt (new_Message i u c t) = 0" "UpdatedAt (new_Message i u c t) = 0"
  "DeletedAt (new_Message i u c t) = None" "Stamps (new_Message i u c t) = []"
  "Pin (new_Message i u c t) = None"
  by (simp_all add: new_Message_def)






section \<open>Create, then read\<close>



section \<open>Reading the nil id\<close>

text \<open>
  C10. For the nil id \<^verbatim>\<open>GetMessageByID\<close> (either variant) returns \<^verbatim>\<open>ErrNotFound\<close>, not
  \<^verbatim>\<open>ErrNilID\<close>, whatever the store holds, and sends no statement: the environment comes
  back as it was.
\<close>

theorem GetMessageByID_nil_is_NotFound:
  "GetMessageByID uuid_Nil r e = (Inl ErrNotFound, e) \<and>
   GetMessageByID_legacy uuid_Nil r e = (Inl ErrNotFound, e) \<and>
   fst (GetMessageByID uuid_Nil r e) \<noteq> Inl ErrNilID"
  by (simp add: GetMessageByID_def GetMessageByID_legacy_def)

section \<open>A failed transaction publishes nothing\<close>

lemmas run_defs =
  uuid_Nil_def NewV4_def substrate_def time_Now_def Transaction_def Publish_def Let_def
  new_Message_def zero_Message_def convertError_def select_message_def messagePreloads_def
  gorm_Create_Message_def gorm_Upsert_ChannelLatestMessage_def gorm_First_Message_def
  gorm_Create_ArchivedMessage_def gorm_Update_Message_text_def
  gorm_Find_Unreads_by_message_def gorm_Delete_Message_def gorm_Delete_Unreads_by_message_def
  gorm_Delete_Pins_by_message_def gorm_Delete_ClipFolderMessages_by_message_def
  CreateMessage_tx_def CreateMessage_def GetMessageByID_def
  UpdateMessage_tx_def UpdateMessage_def DeleteMessage_tx_def DeleteMessage_def
  empty_database_def no_citation_def calm_env_def sample_message_def sample_database_def
  failing_env_def

text \<open>
  C2. For \<^verbatim>\<open>CreateMessage\<close>, \<^verbatim>\<open>UpdateMessage\<close> and \<^verbatim>\<open>DeleteMessage\<close>: when the
  transaction of the operation returns an error, the operation returns that error and
  leaves the repository as it was, hub included; and when the hub has changed, the
  transaction had returned without error and the tables are those it committed.
\<close>

theorem failed_transaction_publishes_nothing:
  "(userID \<noteq> uuid_Nil \<and> channelID \<noteq> uuid_Nil \<and> NewV4 e = Some (i, e0) \<and>
    Transaction (new_Message i userID channelID content)
      (CreateMessage_tx (new_Message i userID channelID content)) (db r) e0 = (Some err, m, d1, e1)
    \<longrightarrow> CreateMessage Parse userID channelID content r e = (Inl err, r, e1)) \<and>
   (messageID \<noteq> uuid_Nil \<and>
    Transaction (zero_Message, zero_Message) (UpdateMessage_tx messageID content) (db r) e
      = (Some err, v, d1, e1)
    \<longrightarrow> UpdateMessage messageID content r e = (Inl err, r, e1)) \<and>
   (messageID \<noteq> uuid_Nil \<and>
    Transaction (zero_Message, []) (DeleteMessage_tx messageID) (db r) e = (Some err, w, d1, e1)
    \<longrightarrow> DeleteMessage messageID r e = (Inl err, r, e1)) \<and>
   (CreateMessage Parse userID channelID content r e = (res, r', e') \<and> hub r' \<noteq> hub r
    \<longrightarrow> (\<exists>i e0 m. NewV4 e = Some (i, e0) \<and> res = Inr m \<and>
           Transaction (new_Message i userID channelID content)
             (CreateMessage_tx (new_Message i userID channelID content)) (db r) e0
             = (None, m, db r', e'))) \<and>
   (UpdateMessage messageID content r e = (res', r', e') \<and> hub r' \<noteq> hub r
    \<longrightarrow> (\<exists>v. res' = Inr () \<and>
           Transaction (zero_Message, zero_Message) (UpdateMessage_tx messageID content) (db r) e
             = (None, v, db r', e'))) \<and>
   (DeleteMessage messageID r e = (res', r', e') \<and> hub r' \<noteq> hub r
    \<longrightarrow> (\<exists>w. res' = Inr () \<and>
           Transaction (zero_Message, []) (DeleteMessage_tx messageID) (db r) e
             = (None, w, db r', e')))"
proof (intro conjI impI)
  assume "userID \<noteq> uuid_Nil \<and> channelID \<noteq> uuid_Nil \<and> NewV4 e = Some (i, e0) \<and>
    Transaction (new_Message i userID channelID content)
      (CreateMessage_tx (new_Message i userID channelID content)) (db r) e0 = (Some err, m, d1, e1)"
  then show "CreateMessage Parse userID channelID content r e = (Inl err, r, e1)"
    using Transaction_SomeD[of "new_Message i userID channelID content"
        "CreateMessage_tx (new_Message i userID channelID content)" "db r" e0 err m d1 e1]
    by (simp add: CreateMessage_def)
next
  assume "messageID \<noteq> uuid_Nil \<and>
    Transaction (zero_Message, zero_Message) (UpdateMessage_tx messageID content) (db r) e
      = (Some err, v, d1, e1)"
  then show "UpdateMessage messageID content r e = (Inl err, r, e1)"
    using Transaction_SomeD[of "(zero_Message, zero_Message)" "UpdateMessage_tx messageID content"
        "db r" e err v d1 e1]
    by (cases v) (simp add: UpdateMessage_def)
next
  assume "messageID \<noteq> uuid_Nil \<and>
    Transaction (zero_Message, []) (DeleteMessage_tx messageID) (db r) e = (Some err, w, d1, e1)"
  then show "DeleteMessage messageID r e = (Inl err, r, e1)"
    using Transaction_SomeD[of "(zero_Message, [])" "DeleteMessage_tx messageID"
        "db r" e err w d1 e1]
    by (cases w) (simp add: DeleteMessage_def)
next
  assume "CreateMessage Parse userID channelID content r e = (res, r', e') \<and> hub r' \<noteq> hub r"
  then show "\<exists>i e0 m. NewV4 e = Some (i, e0) \<and> res = Inr m \<and>
           Transaction (new_Message i userID channelID content)
             (CreateMessage_tx (new_Message i userID channelID content)) (db r) e0
             = (None, m, db r', e')"
    by (auto simp: CreateMessage_def Let_def Publish_def
             split: if_splits option.splits prod.splits)
next
  assume "UpdateMessage messageID content r e = (res', r', e') \<and> hub r' \<noteq> hub r"
  then show "\<exists>v. res' = Inr () \<and>
           Transaction (zero_Message, zero_Message) (UpdateMessage_tx messageID content) (db r) e
             = (None, v, db r', e')"
    by (auto simp: UpdateMessage_def Publish_def split: if_splits option.splits prod.splits)
next
  assume "DeleteMessage messageID r e = (res', r', e') \<and> hub r' \<noteq> hub r"
  then show "\<exists>w. res' = Inr () \<and>
           Transaction (zero_Message, []) (DeleteMessage_tx messageID) (db r) e
             = (None, w, db r', e')"
    by (auto simp: DeleteMessage_def Publish_def split: if_splits option.splits prod.splits)
qed

theorem failed_transaction_publishes_nothing_witness:
  "CreateMessage no_citation 1 2 ''hi'' \<lparr>db = sample_database, hub = []\<rparr> failing_env
     = (Inl (ErrStorage 1), \<lparr>db = sample_database, hub = []\<rparr>,
        \<lparr>faults = [], entropy = [], now = 5, later = []\<rparr>) \<and>
   UpdateMessage 7 ''new'' \<lparr>db = sample_database, hub = []\<rparr> failing_env
     = (Inl (ErrStorage 1), \<lparr>db = sample_database, hub = []\<rparr>,
        \<lparr>faults = [], entropy = [0], now = 5, later = []\<rparr>) \<and>
   DeleteMessage 7 \<lparr>db = sample_database, hub = []\<rparr> failing_env
     = (Inl (ErrStorage 1), \<lparr>db = sample_database, hub = []\<rparr>,
        \<lparr>faults = [], entropy = [0], now = 5, later = []\<rparr>) \<and>
   (\<exists>i e0 m r' e'.
      hub r' \<noteq> [] \<and>
      CreateMessage no_citation 1 2 ''hi'' \<lparr>db = sample_database, hub = []\<rparr> (calm_env [0] 5)
        = (Inr m, r', e') \<and>
      Transaction (new_Message i 1 2 ''hi'') (CreateMessage_tx (new_Message i 1 2 ''hi''))
        sample_database e0 = (None, m, db r', e')) \<and>
   (\<exists>v r' e'.
      hub r' \<noteq> [] \<and>
      UpdateMessage 7 ''new'' \<lparr>db = sample_database, hub = []\<rparr> (calm_env [0] 5)
        = (Inr (), r', e') \<and>
      Transaction (zero_Message, zero_Message) (UpdateMessage_tx 7 ''new'')
        sample_database (calm_env [0] 5) = (None, v, db r', e')) \<and>
   (\<exists>w r' e'.
      hub r' \<noteq> [] \<and>
      DeleteMessage 7 \<lparr>db = sample_database, hub = []\<rparr> (calm_env [0] 5) = (Inr (), r', e') \<and>
      Transaction (zero_Message, []) (DeleteMessage_tx 7)
        sample_database (calm_env [0] 5) = (None, w, db r', e'))"
proof -
  let ?r = "\<lparr>db = sample_database, hub = []\<rparr>"
  let ?e1 = "\<lparr>faults = [], entropy = [], now = 5, later = []\<rparr>"
  let ?e2 = "\<lparr>faults = [], entropy = [0::uuid], now = 5, later = []\<rparr>"
  let ?i = "302240678275694148452352 :: uuid"
  have n: "NewV4 failing_env = Some (?i, \<lparr>faults = [Some 1], entropy = [], now = 5, later = []\<rparr>)"
    by (simp add: NewV4_def failing_env_def)
  have c: "Transaction (new_Message ?i 1 2 ''hi'') (CreateMessage_tx (new_Message ?i 1 2 ''hi''))
             (db ?r) \<lparr>faults = [Some 1], entropy = [], now = 5, later = []\<rparr>
           = (Some (ErrStorage 1), new_Message ?i 1 2 ''hi'', sample_database, ?e1)"
    by (simp add: Transaction_def substrate_def)
  have u: "Transaction (zero_Message, zero_Message) (UpdateMessage_tx 7 ''new'') (db ?r) failing_env
           = (Some (ErrStorage 1), (zero_Message, zero_Message), sample_database, ?e2)"
    by (simp add: Transaction_def substrate_def failing_env_def)
  have d: "Transaction (zero_Message, []) (DeleteMessage_tx 7) (db ?r) failing_env
           = (Some (ErrStorage 1), (zero_Message, []), sample_database, ?e2)"
    by (simp add: Transaction_def substrate_def failing_env_def)
  note T = failed_transaction_publishes_nothing
  have w1: "CreateMessage no_citation 1 2 ''hi'' ?r failing_env = (Inl (ErrStorage 1), ?r, ?e1)"
    using T[where userID = 1 and channelID = 2 and e = failing_env and i = "?i"
          and ?e0.0 = "\<lparr>faults = [Some 1], entropy = [], now = 5, later = []\<rparr>"
          and content = "''hi''" and r = "?r" and err = "ErrStorage 1"
          and m = "new_Message ?i 1 2 ''hi''" and ?d1.0 = sample_database and ?e1.0 = "?e1"
          and Parse = no_citation] n c
    by (simp add: uuid_Nil_def)
  have w2: "UpdateMessage 7 ''new'' ?r failing_env = (Inl (ErrStorage 1), ?r, ?e2)"
    using T[where messageID = 7 and content = "''new''" and r = "?r" and e = failing_env
          and err = "ErrStorage 1" and v = "(zero_Message, zero_Message)"
          and ?d1.0 = sample_database and ?e1.0 = "?e2"] u
    by (simp add: uuid_Nil_def)
  have w3: "DeleteMessage 7 ?r failing_env = (Inl (ErrStorage 1), ?r, ?e2)"
    using T[where messageID = 7 and r = "?r" and e = failing_env
          and err = "ErrStorage 1" and w = "(zero_Message, [])"
          and ?d1.0 = sample_database and ?e1.0 = "?e2"] d
    by (simp add: uuid_Nil_def)
  obtain m4 r4 e4 where
    r4: "CreateMessage no_citation 1 2 ''hi'' ?r (calm_env [0] 5) = (Inr m4, r4, e4)"
    and h4: "hub r4 \<noteq> []"
    by (simp add: run_defs)
  have w4: "\<exists>i e0 m. NewV4 (calm_env [0] 5) = Some (i, e0) \<and> Inr m4 = Inr m \<and>
      Transaction (new_Message i 1 2 ''hi'') (CreateMessage_tx (new_Message i 1 2 ''hi''))
        (db ?r) e0 = (None, m, db r4, e4)"
    using T[where userID = 1 and channelID = 2 and e = "calm_env [0] 5"
          and content = "''hi''" and r = "?r" and Parse = no_citation and res = "Inr m4"
          and r' = r4 and e' = e4] r4 h4
    by simp
  obtain r5 e5 where
    r5: "UpdateMessage 7 ''new'' ?r (calm_env [0] 5) = (Inr (), r5, e5)"
    and h5: "hub r5 \<noteq> []"
    by (simp add: run_defs)
  have w5: "\<exists>v. Inr () = Inr () \<and>
      Transaction (zero_Message, zero_Message) (UpdateMessage_tx 7 ''new'') (db ?r)
        (calm_env [0] 5) = (None, v, db r5, e5)"
    using T[where messageID = 7 and content = "''new''" and e = "calm_env [0] 5"
          and r = "?r" and res' = "Inr ()" and r' = r5 and e' = e5] r5 h5
    by simp
  obtain r6 e6 where
    r6: "DeleteMessage 7 ?r (calm_env [0] 5) = (Inr (), r6, e6)"
    and h6: "hub r6 \<noteq> []"
    by (simp add: run_defs)
  have w6: "\<exists>w. Inr () = Inr () \<and>
      Transaction (zero_Message, []) (DeleteMessage_tx 7) (db ?r)
        (calm_env [0] 5) = (None, w, db r6, e6)"
    using T[where messageID = 7 and e = "calm_env [0] 5"
          and r = "?r" and res' = "Inr ()" and r' = r6 and e' = e6] r6 h6
    by simp
  from w4 obtain i4 e04 where
    t4: "Transaction (new_Message i4 1 2 ''hi'') (CreateMessage_tx (new_Message i4 1 2 ''hi''))
           sample_database e04 = (None, m4, db r4, e4)"
    by auto
  from w5 obtain v5 where
    t5: "Transaction (zero_Message, zero_Message) (UpdateMessage_tx 7 ''new'') sample_database
           (calm_env [0] 5) = (None, v5, db r5, e5)"
    by auto
  from w6 obtain v6 where
    t6: "Transaction (zero_Message, []) (DeleteMessage_tx 7) sample_database
           (calm_env [0] 5) = (None, v6, db r6, e6)"
    by auto
  have p4: "\<exists>i e0 m r' e'.
      hub r' \<noteq> [] \<and>
      CreateMessage no_citation 1 2 ''hi'' ?r (calm_env [0] 5) = (Inr m, r', e') \<and>
      Transaction (new_Message i 1 2 ''hi'') (CreateMessage_tx (new_Message i 1 2 ''hi''))
        sample_database e0 = (None, m, db r', e')"
    using h4 r4 t4 by (intro exI conjI)
  have p5: "\<exists>v r' e'.
      hub r' \<noteq> [] \<and>
      UpdateMessage 7 ''new'' ?r (calm_env [0] 5) = (Inr (), r', e') \<and>
      Transaction (zero_Message, zero_Message) (UpdateMessage_tx 7 ''new'')
        sample_database (calm_env [0] 5) = (None, v, db r', e')"
    using h5 r5 t5 by (intro exI conjI)
  have p6: "\<exists>w r' e'.
      hub r' \<noteq> [] \<and>
      DeleteMessage 7 ?r (calm_env [0] 5) = (Inr (), r', e') \<and>
      Transaction (zero_Message, []) (DeleteMessage_tx 7)
        sample_database (calm_env [0] 5) = (None, w, db r', e')"
    using h6 r6 t6 by (intro exI conjI)
  show ?thesis
    using w1 w2 w3 p4 p5 p6 by (intro conjI)
qed

section \<open>Update archives the superseded text\<close>

lemma select_message_SomeD:
  "select_message rows i = Some m \<Longrightarrow> m \<in> set rows \<and> ID m = i \<and> DeletedAt m = None"
  by (auto simp: select_message_def find_Some_iff)

lemma gorm_First_Message_InrD:
  "gorm_First_Message p i d e = (Inr m, e1) \<Longrightarrow>
   \<exists>m0. select_message (messages d) i = Some m0 \<and>
        m = (if p then messagePreloads d m0 else m0) \<and> substrate e = (None, e1)"
  by (auto simp: gorm_First_Message_def split: prod.splits option.splits)




lemma select_message_map_update:
  assumes "select_message rows i = Some old"
  shows "select_message
           (map (\<lambda>m. if ID m = i \<and> DeletedAt m = None then m\<lparr>Text := c, UpdatedAt := t\<rparr> else m) rows) i
         = Some (old\<lparr>Text := c, UpdatedAt := t\<rparr>)"
  using assms unfolding select_message_def
  by (induction rows) (auto split: if_splits)



section \<open>Delete cascades and hides the message\<close>


lemma DeleteMessage_tx_NoneD:
  assumes "DeleteMessage_tx messageID d e = (None, (m, us), d4, e6)"
  shows "\<exists>e1 e2 d1 e3 d2 e4 d3 e5.
           gorm_First_Message False messageID d e = (Inr m, e1) \<and>
           gorm_Find_Unreads_by_message messageID d e1 = (Inr us, e2) \<and>
           gorm_Delete_Message m d e2 = (None, d1, e3) \<and>
           gorm_Delete_Unreads_by_message messageID d1 e3 = (None, d2, e4) \<and>
           gorm_Delete_Pins_by_message messageID d2 e4 = (None, d3, e5) \<and>
           gorm_Delete_ClipFolderMessages_by_message messageID d3 e5 = (None, d4, e6)"
  using assms unfolding DeleteMessage_tx_def
  by (auto split: prod.splits option.splits sum.splits)

lemma gorm_Delete_Message_NoneD:
  "gorm_Delete_Message m d e = (None, d1, e1) \<Longrightarrow>
   d1 = d\<lparr>messages := map (\<lambda>x. if ID x = ID m \<and> DeletedAt x = None
                                   then x\<lparr>DeletedAt := Some (now e)\<rparr> else x) (messages d)\<rparr>"
  by (auto simp: gorm_Delete_Message_def time_Now_def split: prod.splits option.splits)

lemma gorm_Delete_Unreads_NoneD:
  "gorm_Delete_Unreads_by_message i d e = (None, d1, e1) \<Longrightarrow>
   d1 = d\<lparr>unreads := filter (\<lambda>u. ur_MessageID u \<noteq> i) (unreads d)\<rparr>"
  by (auto simp: gorm_Delete_Unreads_by_message_def split: prod.splits option.splits)

lemma gorm_Delete_Pins_NoneD:
  "gorm_Delete_Pins_by_message i d e = (None, d1, e1) \<Longrightarrow>
   d1 = d\<lparr>pins := filter (\<lambda>p. pin_MessageID p \<noteq> i) (pins d)\<rparr>"
  by (auto simp: gorm_Delete_Pins_by_message_def split: prod.splits option.splits)

lemma gorm_Delete_Clips_NoneD:
  "gorm_Delete_ClipFolderMessages_by_message i d e = (None, d1, e1) \<Longrightarrow>
   d1 = d\<lparr>clip_folder_messages := filter (\<lambda>c. cfm_MessageID c \<noteq> i) (clip_folder_messages d)\<rparr>"
  by (auto simp: gorm_Delete_ClipFolderMessages_by_message_def split: prod.splits option.splits)

lemma select_message_after_soft_delete:
  "select_message
     (map (\<lambda>x. if ID x = i \<and> DeletedAt x = None then x\<lparr>DeletedAt := Some t\<rparr> else x) rows) i
   = None"
  unfolding select_message_def by (induction rows) auto

lemma GetMessageByID_absent:
  assumes "select_message (messages (db r)) i = None" and "healthy 1 e"
  shows "fst (GetMessageByID i r e) = Inl ErrNotFound"
proof -
  from healthy_Suc[of 0 e] assms(2) obtain e1 where "substrate e = (None, e1)" by auto
  with assms(1) show ?thesis
    by (simp add: GetMessageByID_def gorm_First_Message_def convertError_def)
qed

lemma DeleteMessage_absent:
  assumes "select_message (messages (db r)) i = None" and "healthy 2 e" and "i \<noteq> uuid_Nil"
  shows "\<exists>e'. DeleteMessage i r e = (Inl ErrNotFound, r, e')"
proof -
  from healthy_Suc[of 1 e] assms(2) obtain e1 where b: "substrate e = (None, e1)" and "healthy 1 e1"
    by (auto simp: numeral_2_eq_2)
  with healthy_Suc[of 0 e1] obtain e2 where f: "substrate e1 = (None, e2)" by auto
  show ?thesis
    using assms(1,3) b f
    by (simp add: DeleteMessage_def Transaction_def DeleteMessage_tx_def gorm_First_Message_def
          convertError_def)
qed

lemma DeleteMessage_error_unchanged:
  "DeleteMessage i r e = (Inl err, r1, e1) \<Longrightarrow> r1 = r"
  by (auto simp: DeleteMessage_def Publish_def split: if_splits prod.splits option.splits
           dest: Transaction_SomeD)

text \<open>
  C4. A successful \<^verbatim>\<open>DeleteMessage\<close> leaves the tables with the message soft-deleted and
  with exactly the unread markers, pins and clip-folder rows that do not refer to it; a
  failed one leaves the repository as it was, so the four writes happen together or not
  at all. Afterwards, on a substrate that answers, \<^verbatim>\<open>GetMessageByID\<close> of the id returns
  \<^verbatim>\<open>ErrNotFound\<close>, and a second \<^verbatim>\<open>DeleteMessage\<close> returns \<^verbatim>\<open>ErrNotFound\<close> and changes
  nothing.
\<close>

theorem DeleteMessage_cascades_and_hides:
  assumes ok: "DeleteMessage messageID r e = (Inr (), r', e')"
    and read_ok: "healthy 1 e1"
    and again_ok: "healthy 2 e2"
  shows "(\<exists>t. messages (db r') =
             map (\<lambda>x. if ID x = messageID \<and> DeletedAt x = None
                      then x\<lparr>DeletedAt := Some t\<rparr> else x) (messages (db r))) \<and>
         unreads (db r') = filter (\<lambda>u. ur_MessageID u \<noteq> messageID) (unreads (db r)) \<and>
         pins (db r') = filter (\<lambda>p. pin_MessageID p \<noteq> messageID) (pins (db r)) \<and>
         clip_folder_messages (db r') =
           filter (\<lambda>c. cfm_MessageID c \<noteq> messageID) (clip_folder_messages (db r)) \<and>
         messageID \<notin> set (map ur_MessageID (unreads (db r'))) \<and>
         messageID \<notin> set (map pin_MessageID (pins (db r'))) \<and>
         messageID \<notin> set (map cfm_MessageID (clip_folder_messages (db r'))) \<and>
         fst (GetMessageByID messageID r' e1) = Inl ErrNotFound \<and>
         (\<exists>e3. DeleteMessage messageID r' e2 = (Inl ErrNotFound, r', e3)) \<and>
         (\<forall>e4 err r4 e5. DeleteMessage messageID r e4 = (Inl err, r4, e5) \<longrightarrow> r4 = r)"
proof -
  from ok have nn: "messageID \<noteq> uuid_Nil"
    by (auto simp: DeleteMessage_def split: if_splits)
  from ok nn obtain m us where
    tx: "Transaction (zero_Message, []) (DeleteMessage_tx messageID) (db r) e
           = (None, (m, us), db r', e')"
    by (auto simp: DeleteMessage_def Publish_def split: prod.splits option.splits)
  from Transaction_NoneD[OF tx] obtain e0 e6 where
    body: "DeleteMessage_tx messageID (db r) e0 = (None, (m, us), db r', e6)"
    by blast
  from DeleteMessage_tx_NoneD[OF body] obtain ea eb d1 ec d2 ed d3 ee where
    f: "gorm_First_Message False messageID (db r) e0 = (Inr m, ea)" and
    s: "gorm_Delete_Message m (db r) eb = (None, d1, ec)" and
    u: "gorm_Delete_Unreads_by_message messageID d1 ec = (None, d2, ed)" and
    p: "gorm_Delete_Pins_by_message messageID d2 ed = (None, d3, ee)" and
    c: "gorm_Delete_ClipFolderMessages_by_message messageID d3 ee = (None, db r', e6)"
    by blast
  from gorm_First_Message_InrD[OF f] have sel: "select_message (messages (db r)) messageID = Some m"
    by simp
  have idm: "ID m = messageID" using select_message_SomeD[OF sel] by simp
  note S = gorm_Delete_Message_NoneD[OF s]
  note U = gorm_Delete_Unreads_NoneD[OF u]
  note P = gorm_Delete_Pins_NoneD[OF p]
  note C = gorm_Delete_Clips_NoneD[OF c]
  have msgs: "messages (db r') =
             map (\<lambda>x. if ID x = messageID \<and> DeletedAt x = None
                      then x\<lparr>DeletedAt := Some (now eb)\<rparr> else x) (messages (db r))"
    using S U P C idm by simp
  have un: "unreads (db r') = filter (\<lambda>u. ur_MessageID u \<noteq> messageID) (unreads (db r))"
    using S U P C by simp
  have pi: "pins (db r') = filter (\<lambda>p. pin_MessageID p \<noteq> messageID) (pins (db r))"
    using S U P C by simp
  have cl: "clip_folder_messages (db r') =
           filter (\<lambda>c. cfm_MessageID c \<noteq> messageID) (clip_folder_messages (db r))"
    using S U P C by simp
  have gone: "select_message (messages (db r')) messageID = None"
    unfolding msgs by (rule select_message_after_soft_delete)
  have rd: "fst (GetMessageByID messageID r' e1) = Inl ErrNotFound"
    using GetMessageByID_absent[OF gone read_ok] .
  have ag: "\<exists>e3. DeleteMessage messageID r' e2 = (Inl ErrNotFound, r', e3)"
    using DeleteMessage_absent[OF gone again_ok nn] .
  have n1: "messageID \<notin> set (map ur_MessageID (unreads (db r')))" unfolding un by auto
  have n2: "messageID \<notin> set (map pin_MessageID (pins (db r')))" unfolding pi by auto
  have n3: "messageID \<notin> set (map cfm_MessageID (clip_folder_messages (db r')))"
    unfolding cl by auto
  from msgs have "\<exists>t. messages (db r') =
             map (\<lambda>x. if ID x = messageID \<and> DeletedAt x = None
                      then x\<lparr>DeletedAt := Some t\<rparr> else x) (messages (db r))" by blast
  moreover have "\<forall>e4 err r4 e5. DeleteMessage messageID r e4 = (Inl err, r4, e5) \<longrightarrow> r4 = r"
    using DeleteMessage_error_unchanged by blast
  ultimately show ?thesis using un pi cl n1 n2 n3 rd ag by (intro conjI)
qed

theorem DeleteMessage_cascades_and_hides_witness:
  "\<exists>r' e'.
     DeleteMessage 7 \<lparr>db = sample_database, hub = []\<rparr> (calm_env [] 5) = (Inr (), r', e') \<and>
     healthy 1 (calm_env [] 6) \<and> healthy 2 (calm_env [] 6) \<and>
     unreads (db r') = [\<lparr>ur_UserID = 9, ur_MessageID = 8, ur_Noticeable = False\<rparr>] \<and>
     pins (db r') = [] \<and> clip_folder_messages (db r') = [] \<and>
     fst (GetMessageByID 7 r' (calm_env [] 6)) = Inl ErrNotFound \<and>
     fst (DeleteMessage 7 r' (calm_env [] 6)) = Inl ErrNotFound \<and>
     fst (DeleteMessage 7 \<lparr>db = sample_database, hub = []\<rparr> failing_env)
       = Inl (ErrStorage 1) \<and>
     fst (snd (DeleteMessage 7 \<lparr>db = sample_database, hub = []\<rparr> failing_env))
       = \<lparr>db = sample_database, hub = []\<rparr>"
proof -
  let ?r = "\<lparr>db = sample_database, hub = []\<rparr>"
  obtain r' e' where run: "DeleteMessage 7 ?r (calm_env [] 5) = (Inr (), r', e')"
    by (simp add: run_defs)
  have h1: "healthy 1 (calm_env [] 6)" and h2: "healthy 2 (calm_env [] 6)"
    by (simp_all add: healthy_def calm_env_def)
  note T = DeleteMessage_cascades_and_hides[OF run h1 h2]
  from T have u: "unreads (db r') = filter (\<lambda>u. ur_MessageID u \<noteq> 7) (unreads (db ?r))"
    and p: "pins (db r') = filter (\<lambda>p. pin_MessageID p \<noteq> 7) (pins (db ?r))"
    and c: "clip_folder_messages (db r') =
           filter (\<lambda>c. cfm_MessageID c \<noteq> 7) (clip_folder_messages (db ?r))"
    and g: "fst (GetMessageByID 7 r' (calm_env [] 6)) = Inl ErrNotFound"
    and d: "\<exists>e3. DeleteMessage 7 r' (calm_env [] 6) = (Inl ErrNotFound, r', e3)"
    by blast+
  have u': "unreads (db r') = [\<lparr>ur_UserID = 9, ur_MessageID = 8, ur_Noticeable = False\<rparr>]"
    using u by (simp add: sample_database_def)
  have p': "pins (db r') = []" using p by (simp add: sample_database_def)
  have c': "clip_folder_messages (db r') = []" using c by (simp add: sample_database_def)
  from d have d': "fst (DeleteMessage 7 r' (calm_env [] 6)) = Inl ErrNotFound" by auto
  obtain r4 e5 where f: "DeleteMessage 7 ?r failing_env = (Inl (ErrStorage 1), r4, e5)"
    by (simp add: DeleteMessage_def Transaction_def substrate_def failing_env_def uuid_Nil_def)
  from T f have "r4 = ?r" by blast
  with f have f1: "fst (DeleteMessage 7 ?r failing_env) = Inl (ErrStorage 1)"
    and f2: "fst (snd (DeleteMessage 7 ?r failing_env)) = ?r"
    by simp_all
  show ?thesis using run h1 h2 u' p' c' g d' f1 f2 by (intro exI conjI)
qed

section \<open>SetMessageUnread is an upsert that announces only the insert\<close>

lemma SetMessageUnread_insert:
  assumes ok: "SetMessageUnread userID messageID noticeable r e = (Inr (), r', e')"
    and fresh: "(userID, messageID) \<notin> set (map (\<lambda>u. (ur_UserID u, ur_MessageID u)) (unreads (db r)))"
  shows "unreads (db r') = unreads (db r) @
           [\<lparr>ur_UserID = userID, ur_MessageID = messageID, ur_Noticeable = noticeable\<rparr>] \<and>
         hub r' = hub r @ [MessageUnread messageID userID noticeable]"
proof -
  have none: "find (\<lambda>u. ur_UserID u = userID \<and> ur_MessageID u = messageID) (unreads (db r)) = None"
    using fresh by (auto simp: find_None_iff image_iff)
  from ok have nn: "\<not> (userID = uuid_Nil \<or> messageID = uuid_Nil)"
    by (auto simp: SetMessageUnread_def split: if_splits)
  from ok nn obtain upd d1 where
    tx: "Transaction False (SetMessageUnread_tx userID messageID noticeable) (db r) e
           = (None, upd, d1, e')" and
    r': "r' = (if \<not> upd then Publish (MessageUnread messageID userID noticeable) (r\<lparr>db := d1\<rparr>)
               else r\<lparr>db := d1\<rparr>)"
    by (auto simp: SetMessageUnread_def split: prod.splits option.splits if_splits)
  from Transaction_NoneD[OF tx] obtain e0 e2 where
    body: "SetMessageUnread_tx userID messageID noticeable (db r) e0 = (None, upd, d1, e2)"
    by blast
  from body none have "\<not> upd \<and> d1 = (db r)\<lparr>unreads := unreads (db r) @
           [\<lparr>ur_UserID = userID, ur_MessageID = messageID, ur_Noticeable = noticeable\<rparr>]\<rparr>"
    by (auto simp: SetMessageUnread_tx_def gorm_First_Unread_def gorm_Create_Unread_def
             split: prod.splits option.splits if_splits)
  with r' show ?thesis by (simp add: Publish_def)
qed

lemma SetMessageUnread_update:
  assumes ok: "SetMessageUnread userID messageID noticeable r e = (Inr (), r', e')"
    and present: "(userID, messageID) \<in> set (map (\<lambda>u. (ur_UserID u, ur_MessageID u)) (unreads (db r)))"
  shows "unreads (db r') =
           map (\<lambda>x. if ur_UserID x = userID \<and> ur_MessageID x = messageID
                    then x\<lparr>ur_Noticeable := noticeable\<rparr> else x) (unreads (db r)) \<and>
         hub r' = hub r"
proof -
  from present obtain u where
    some: "find (\<lambda>u. ur_UserID u = userID \<and> ur_MessageID u = messageID) (unreads (db r)) = Some u"
    by (cases "find (\<lambda>u. ur_UserID u = userID \<and> ur_MessageID u = messageID) (unreads (db r))")
       (auto simp: find_None_iff)
  then have key: "ur_UserID u = userID \<and> ur_MessageID u = messageID"
    by (auto simp: find_Some_iff)
  from ok have nn: "\<not> (userID = uuid_Nil \<or> messageID = uuid_Nil)"
    by (auto simp: SetMessageUnread_def split: if_splits)
  from ok nn obtain upd d1 where
    tx: "Transaction False (SetMessageUnread_tx userID messageID noticeable) (db r) e
           = (None, upd, d1, e')" and
    r': "r' = (if \<not> upd then Publish (MessageUnread messageID userID noticeable) (r\<lparr>db := d1\<rparr>)
               else r\<lparr>db := d1\<rparr>)"
    by (auto simp: SetMessageUnread_def split: prod.splits option.splits if_splits)
  from Transaction_NoneD[OF tx] obtain e0 e2 where
    body: "SetMessageUnread_tx userID messageID noticeable (db r) e0 = (None, upd, d1, e2)"
    by blast
  from body some key have "upd \<and> d1 = (db r)\<lparr>unreads :=
           map (\<lambda>x. if ur_UserID x = userID \<and> ur_MessageID x = messageID
                    then x\<lparr>ur_Noticeable := noticeable\<rparr> else x) (unreads (db r))\<rparr>"
    by (auto simp: SetMessageUnread_tx_def gorm_First_Unread_def gorm_Update_Unread_noticeable_def
             split: prod.splits option.splits if_splits)
  with r' show ?thesis by simp
qed

lemma SetMessageUnread_succeeds:
  assumes nn: "userID \<noteq> uuid_Nil" "messageID \<noteq> uuid_Nil" and h: "healthy 4 e"
  shows "\<exists>r' e'. SetMessageUnread userID messageID noticeable r e = (Inr (), r', e')"
proof -
  have four: "(4::nat) = Suc (Suc (Suc (Suc 0)))" by simp
  from h obtain e1 where s1: "substrate e = (None, e1)" and h1: "healthy (Suc (Suc (Suc 0))) e1"
    unfolding four using healthy_Suc by blast
  from h1 obtain e2 where s2: "substrate e1 = (None, e2)" and h2: "healthy (Suc (Suc 0)) e2"
    using healthy_Suc by blast
  from h2 obtain e3 where s3: "substrate e2 = (None, e3)" and h3: "healthy (Suc 0) e3"
    using healthy_Suc by blast
  from h3 obtain e4 where s4: "substrate e3 = (None, e4)"
    using healthy_Suc by blast
  show ?thesis
  proof (cases "find (\<lambda>u. ur_UserID u = userID \<and> ur_MessageID u = messageID) (unreads (db r))")
    case None
    then have fresh:
      "(userID, messageID) \<notin> set (map (\<lambda>u. (ur_UserID u, ur_MessageID u)) (unreads (db r)))"
      by (auto simp: find_None_iff)
    show ?thesis
      using nn s1 s2 s3 s4 None fresh
      by (simp add: SetMessageUnread_def Transaction_def SetMessageUnread_tx_def
            gorm_First_Unread_def gorm_Create_Unread_def)
  next
    case (Some u)
    show ?thesis
      using nn s1 s2 s3 s4 Some
      by (simp add: SetMessageUnread_def Transaction_def SetMessageUnread_tx_def
            gorm_First_Unread_def gorm_Update_Unread_noticeable_def)
  qed
qed

text \<open>
  C6. With non-nil ids and a substrate that answers, \<^verbatim>\<open>SetMessageUnread\<close> succeeds. A
  successful call on tables without a marker for (user, message) appends that marker and
  publishes one \<^verbatim>\<open>MessageUnread\<close>; on tables with such a marker it changes only the
  \<^verbatim>\<open>noticeable\<close> flag of the marker and publishes nothing. Hence two successful calls with
  the same arguments, starting without a marker, leave the one marker the first call
  appended and the one event it published.
\<close>

theorem SetMessageUnread_idempotent_upsert:
  "(userID \<noteq> uuid_Nil \<and> messageID \<noteq> uuid_Nil \<and> healthy 4 e0
    \<longrightarrow> (\<exists>r1 e1. SetMessageUnread userID messageID noticeable r e0 = (Inr (), r1, e1))) \<and>
   (SetMessageUnread userID messageID noticeable r e = (Inr (), r', e') \<and>
    (userID, messageID) \<notin> set (map (\<lambda>u. (ur_UserID u, ur_MessageID u)) (unreads (db r)))
    \<longrightarrow> unreads (db r') = unreads (db r) @
           [\<lparr>ur_UserID = userID, ur_MessageID = messageID, ur_Noticeable = noticeable\<rparr>] \<and>
         hub r' = hub r @ [MessageUnread messageID userID noticeable]) \<and>
   (SetMessageUnread userID messageID noticeable r e = (Inr (), r', e') \<and>
    (userID, messageID) \<in> set (map (\<lambda>u. (ur_UserID u, ur_MessageID u)) (unreads (db r)))
    \<longrightarrow> unreads (db r') =
           map (\<lambda>x. if ur_UserID x = userID \<and> ur_MessageID x = messageID
                    then x\<lparr>ur_Noticeable := noticeable\<rparr> else x) (unreads (db r)) \<and>
         hub r' = hub r) \<and>
   (SetMessageUnread userID messageID noticeable r e = (Inr (), r', e') \<and>
    SetMessageUnread userID messageID noticeable r' e2 = (Inr (), r'', e3) \<and>
    (userID, messageID) \<notin> set (map (\<lambda>u. (ur_UserID u, ur_MessageID u)) (unreads (db r)))
    \<longrightarrow> unreads (db r'') = unreads (db r) @
           [\<lparr>ur_UserID = userID, ur_MessageID = messageID, ur_Noticeable = noticeable\<rparr>] \<and>
         hub r'' = hub r @ [MessageUnread messageID userID noticeable])"
proof -
  have twice: "unreads (db r'') = unreads (db r) @
           [\<lparr>ur_UserID = userID, ur_MessageID = messageID, ur_Noticeable = noticeable\<rparr>] \<and>
         hub r'' = hub r @ [MessageUnread messageID userID noticeable]"
    if a: "SetMessageUnread userID messageID noticeable r e = (Inr (), r', e') \<and>
    SetMessageUnread userID messageID noticeable r' e2 = (Inr (), r'', e3) \<and>
    (userID, messageID) \<notin> set (map (\<lambda>u. (ur_UserID u, ur_MessageID u)) (unreads (db r)))"
  proof -
    from a have one: "unreads (db r') = unreads (db r) @
           [\<lparr>ur_UserID = userID, ur_MessageID = messageID, ur_Noticeable = noticeable\<rparr>]"
      and h1: "hub r' = hub r @ [MessageUnread messageID userID noticeable]"
    using SetMessageUnread_insert by blast+
  have present: "(userID, messageID) \<in> set (map (\<lambda>u. (ur_UserID u, ur_MessageID u)) (unreads (db r')))"
    unfolding one by simp
  from a have two: "SetMessageUnread userID messageID noticeable r' e2 = (Inr (), r'', e3)" by simp
  from a have fresh: "\<forall>x \<in> set (unreads (db r)). \<not> (ur_UserID x = userID \<and> ur_MessageID x = messageID)"
    by (auto simp: image_iff)
  have keep: "map (\<lambda>x. if ur_UserID x = userID \<and> ur_MessageID x = messageID
                    then x\<lparr>ur_Noticeable := noticeable\<rparr> else x) (unreads (db r)) = unreads (db r)"
    using fresh by (intro map_idI) auto
  from SetMessageUnread_update[OF two present]
  show ?thesis
    using one h1 keep by simp
  qed
  have c1: "userID \<noteq> uuid_Nil \<and> messageID \<noteq> uuid_Nil \<and> healthy 4 e0
    \<longrightarrow> (\<exists>r1 e1. SetMessageUnread userID messageID noticeable r e0 = (Inr (), r1, e1))"
    using SetMessageUnread_succeeds[of userID messageID e0 noticeable r] by blast
  have c2: "SetMessageUnread userID messageID noticeable r e = (Inr (), r', e') \<and>
    (userID, messageID) \<notin> set (map (\<lambda>u. (ur_UserID u, ur_MessageID u)) (unreads (db r)))
    \<longrightarrow> unreads (db r') = unreads (db r) @
           [\<lparr>ur_UserID = userID, ur_MessageID = messageID, ur_Noticeable = noticeable\<rparr>] \<and>
         hub r' = hub r @ [MessageUnread messageID userID noticeable]"
    using SetMessageUnread_insert[of userID messageID noticeable r e r' e'] by blast
  have c3: "SetMessageUnread userID messageID noticeable r e = (Inr (), r', e') \<and>
    (userID, messageID) \<in> set (map (\<lambda>u. (ur_UserID u, ur_MessageID u)) (unreads (db r)))
    \<longrightarrow> unreads (db r') =
           map (\<lambda>x. if ur_UserID x = userID \<and> ur_MessageID x = messageID
                    then x\<lparr>ur_Noticeable := noticeable\<rparr> else x) (unreads (db r)) \<and>
         hub r' = hub r"
    using SetMessageUnread_update[of userID messageID noticeable r e r' e'] by blast
  have c4: "SetMessageUnread userID messageID noticeable r e = (Inr (), r', e') \<and>
    SetMessageUnread userID messageID noticeable r' e2 = (Inr (), r'', e3) \<and>
    (userID, messageID) \<notin> set (map (\<lambda>u. (ur_UserID u, ur_MessageID u)) (unreads (db r)))
    \<longrightarrow> unreads (db r'') = unreads (db r) @
           [\<lparr>ur_UserID = userID, ur_MessageID = messageID, ur_Noticeable = noticeable\<rparr>] \<and>
         hub r'' = hub r @ [MessageUnread messageID userID noticeable]"
    using twice by blast
  show ?thesis using c1 c2 c3 c4 by (intro conjI)
qed

theorem SetMessageUnread_idempotent_upsert_witness:
  "healthy 4 (calm_env [] 5) \<and>
   (\<exists>r1 e1 r2 e2.
      SetMessageUnread 4 7 False \<lparr>db = sample_database, hub = []\<rparr> (calm_env [] 5)
        = (Inr (), r1, e1) \<and>
      SetMessageUnread 4 7 False r1 (calm_env [] 6) = (Inr (), r2, e2) \<and>
      unreads (db r1) = unreads sample_database @
        [\<lparr>ur_UserID = 4, ur_MessageID = 7, ur_Noticeable = False\<rparr>] \<and>
      hub r1 = [MessageUnread 7 4 False] \<and>
      unreads (db r2) = unreads (db r1) \<and> hub r2 = [MessageUnread 7 4 False]) \<and>
   (\<exists>r3 e3.
      SetMessageUnread 9 7 True \<lparr>db = sample_database, hub = []\<rparr> (calm_env [] 5)
        = (Inr (), r3, e3) \<and>
      unreads (db r3) = [\<lparr>ur_UserID = 9, ur_MessageID = 7, ur_Noticeable = True\<rparr>,
                         \<lparr>ur_UserID = 9, ur_MessageID = 8, ur_Noticeable = False\<rparr>] \<and>
      hub r3 = [])"
proof -
  let ?r = "\<lparr>db = sample_database, hub = []\<rparr>"
  note T = SetMessageUnread_idempotent_upsert
  have h: "healthy 4 (calm_env [] 5)" "healthy 4 (calm_env [] 6)"
    by (simp_all add: healthy_def calm_env_def)
  have fresh: "(4, 7) \<notin> set (map (\<lambda>u. (ur_UserID u, ur_MessageID u)) (unreads (db ?r)))"
    by (simp add: sample_database_def)
  have present: "(9, 7) \<in> set (map (\<lambda>u. (ur_UserID u, ur_MessageID u)) (unreads (db ?r)))"
    by (simp add: sample_database_def)
  from T[where userID = 4 and messageID = 7 and noticeable = False and r = "?r"
           and ?e0.0 = "calm_env [] 5", THEN conjunct1] h
  obtain r1 e1 where c1: "SetMessageUnread 4 7 False ?r (calm_env [] 5) = (Inr (), r1, e1)"
    by (auto simp: uuid_Nil_def)
  from T[where userID = 4 and messageID = 7 and noticeable = False and r = r1
           and ?e0.0 = "calm_env [] 6", THEN conjunct1] h
  obtain r2 e2 where c2: "SetMessageUnread 4 7 False r1 (calm_env [] 6) = (Inr (), r2, e2)"
    by (auto simp: uuid_Nil_def)
  from T[where userID = 9 and messageID = 7 and noticeable = True and r = "?r"
           and ?e0.0 = "calm_env [] 5", THEN conjunct1] h
  obtain r3 e3 where c3: "SetMessageUnread 9 7 True ?r (calm_env [] 5) = (Inr (), r3, e3)"
    by (auto simp: uuid_Nil_def)
  from T[where userID = 4 and messageID = 7 and noticeable = False and r = "?r"
           and e = "calm_env [] 5" and r' = r1 and e' = e1] c1 fresh
  have a1: "unreads (db r1) = unreads sample_database @
        [\<lparr>ur_UserID = 4, ur_MessageID = 7, ur_Noticeable = False\<rparr>]"
    and b1: "hub r1 = [MessageUnread 7 4 False]"
    by simp_all
  from T[where userID = 4 and messageID = 7 and noticeable = False and r = "?r"
           and e = "calm_env [] 5" and r' = r1 and e' = e1 and ?e2.0 = "calm_env [] 6"
           and r'' = r2 and ?e3.0 = e2] c1 c2 fresh
  have a2: "unreads (db r2) = unreads (db r1)" and b2: "hub r2 = [MessageUnread 7 4 False]"
    using a1 by simp_all
  from T[where userID = 9 and messageID = 7 and noticeable = True and r = "?r"
           and e = "calm_env [] 5" and r' = r3 and e' = e3] c3 present
  have a3: "unreads (db r3) = [\<lparr>ur_UserID = 9, ur_MessageID = 7, ur_Noticeable = True\<rparr>,
                         \<lparr>ur_UserID = 9, ur_MessageID = 8, ur_Noticeable = False\<rparr>]"
    and b3: "hub r3 = []"
    by (simp_all add: sample_database_def)
  show ?thesis using h(1) c1 c2 a1 b1 a2 b2 c3 a3 b3 by (intro conjI exI)
qed

section \<open>The latest-message pointer and deletion\<close>














section \<open>Reaction counts\<close>









section \<open>Updating to the empty text\<close>

lemma substrate_quiet: "faults e = [] \<Longrightarrow> substrate e = (None, e)"
  by (simp add: substrate_def)

lemma time_Now_faults: "faults (snd (time_Now e)) = faults e"
  by (simp add: time_Now_def split: list.splits)

lemma UpdateMessage_succeeds:
  assumes nn: "messageID \<noteq> uuid_Nil"
    and sel: "select_message (messages (db r)) messageID = Some old"
    and quiet: "faults e = []"
    and v4: "NewV4 e = Some (aid, e0)"
    and fresh: "aid \<notin> set (map am_ID (archived_messages (db r)))"
  shows "\<exists>r' e' new.
           UpdateMessage messageID content r e = (Inr (), r', e') \<and>
           archived_messages (db r') = archived_messages (db r) @
             [\<lparr>am_ID = aid, am_MessageID = messageID, am_UserID = UserID old,
               am_Text = Text old, am_DateTime = UpdatedAt old\<rparr>] \<and>
           select_message (messages (db r')) messageID = Some new \<and> Text new = content \<and>
           hub r' = hub r @ [MessageUpdated messageID (old\<lparr>Text := content, UpdatedAt := now e\<rparr>) new]"
proof -
  have idm: "ID old = messageID" using select_message_SomeD[OF sel] by simp
  have q0: "faults e0 = []" "now e0 = now e" "later e0 = later e"
    using v4 quiet by (auto simp: NewV4_def split: list.splits)
  obtain t e1 where tn: "time_Now e0 = (t, e1)" by (cases "time_Now e0") auto
  then have t: "t = now e" using q0 by (simp add: time_Now_def)
  have q1: "faults e1 = []" using time_Now_faults[of e0] tn q0 by simp
  let ?a = "\<lparr>am_ID = aid, am_MessageID = messageID, am_UserID = UserID old,
               am_Text = Text old, am_DateTime = UpdatedAt old\<rparr>"
  let ?d1 = "(db r)\<lparr>archived_messages := archived_messages (db r) @ [?a]\<rparr>"
  let ?new = "old\<lparr>Text := content, UpdatedAt := t\<rparr>"
  let ?d2 = "?d1\<lparr>messages := map (\<lambda>m. if ID m = messageID \<and> DeletedAt m = None
                              then m\<lparr>Text := content, UpdatedAt := t\<rparr> else m) (messages ?d1)\<rparr>"
  have f1: "gorm_First_Message False messageID (db r) e = (Inr old, e)"
    using sel quiet by (simp add: gorm_First_Message_def substrate_quiet)
  have a1: "gorm_Create_ArchivedMessage ?a (db r) e0 = (None, ?d1, e0)"
    using fresh q0 by (simp add: gorm_Create_ArchivedMessage_def substrate_quiet)
  have u1: "gorm_Update_Message_text old content ?d1 e0 = (None, ?new, ?d2, e1)"
    using tn q1 idm by (simp add: gorm_Update_Message_text_def substrate_quiet Let_def)
  have sel2: "select_message (messages ?d2) messageID = Some ?new"
    using select_message_map_update[OF sel, where c = content and t = t] by simp
  have f2: "gorm_First_Message False messageID ?d2 e1 = (Inr ?new, e1)"
    using sel2 q1 by (simp add: gorm_First_Message_def substrate_quiet)
  have body: "UpdateMessage_tx messageID content (db r) e = (None, (?new, ?new), ?d2, e1)"
    using f1 v4 a1 u1 f2 idm by (simp add: UpdateMessage_tx_def)
  have tx: "Transaction (zero_Message, zero_Message) (UpdateMessage_tx messageID content) (db r) e
              = (None, (?new, ?new), ?d2, e1)"
    using body quiet q1 by (simp add: Transaction_def substrate_quiet)
  have run: "UpdateMessage messageID content r e =
               (Inr (), Publish (MessageUpdated messageID ?new ?new) (r\<lparr>db := ?d2\<rparr>), e1)"
    using nn tx by (simp add: UpdateMessage_def)
  show ?thesis
    unfolding run using sel2 t by (simp add: Publish_def)
qed

lemma UpdateMessage_legacy_empty:
  "messageID \<noteq> uuid_Nil \<Longrightarrow> UpdateMessage_legacy messageID [] r e = (Inl ErrTextEmpty, r, e)"
  by (simp add: UpdateMessage_legacy_def)

text \<open>
  C9, as the code has it. \<^verbatim>\<open>UpdateMessage\<close> examines the message id only: the nil id is
  refused with \<^verbatim>\<open>ErrNilID\<close> and nothing changes; for a stored, undeleted message, a
  substrate without failures and a fresh archive id, the update to any text, the empty
  one included, succeeds: it archives the old text, stores the new one and publishes
  \<^verbatim>\<open>MessageUpdated\<close>. The legacy variant of the update refuses the empty text with its
  "text is empty" error before it opens the transaction.
\<close>

theorem UpdateMessage_checks_the_id_only:
  "UpdateMessage uuid_Nil content r e = (Inl ErrNilID, r, e) \<and>
   (messageID \<noteq> uuid_Nil \<and> select_message (messages (db r)) messageID = Some old \<and>
    faults e = [] \<and> NewV4 e = Some (aid, e0) \<and>
    aid \<notin> set (map am_ID (archived_messages (db r)))
    \<longrightarrow> (\<exists>r' e' new.
           UpdateMessage messageID content r e = (Inr (), r', e') \<and>
           archived_messages (db r') = archived_messages (db r) @
             [\<lparr>am_ID = aid, am_MessageID = messageID, am_UserID = UserID old,
               am_Text = Text old, am_DateTime = UpdatedAt old\<rparr>] \<and>
           select_message (messages (db r')) messageID = Some new \<and> Text new = content \<and>
           (\<exists>before. hub r' = hub r @ [MessageUpdated messageID before new]))) \<and>
   (messageID \<noteq> uuid_Nil
    \<longrightarrow> UpdateMessage_legacy messageID [] r e = (Inl ErrTextEmpty, r, e))"
proof -
  have a: "UpdateMessage uuid_Nil content r e = (Inl ErrNilID, r, e)"
    by (simp add: UpdateMessage_def)
  have b: "\<exists>r' e' new.
           UpdateMessage messageID content r e = (Inr (), r', e') \<and>
           archived_messages (db r') = archived_messages (db r) @
             [\<lparr>am_ID = aid, am_MessageID = messageID, am_UserID = UserID old,
               am_Text = Text old, am_DateTime = UpdatedAt old\<rparr>] \<and>
           select_message (messages (db r')) messageID = Some new \<and> Text new = content \<and>
           (\<exists>before. hub r' = hub r @ [MessageUpdated messageID before new])"
    if "messageID \<noteq> uuid_Nil \<and> select_message (messages (db r)) messageID = Some old \<and>
        faults e = [] \<and> NewV4 e = Some (aid, e0) \<and>
        aid \<notin> set (map am_ID (archived_messages (db r)))"
    using UpdateMessage_succeeds[of messageID r old e aid e0 content] that by blast
  show ?thesis
    using a b UpdateMessage_legacy_empty[of messageID r e] by blast
qed

theorem UpdateMessage_checks_the_id_only_witness:
  "select_message (messages sample_database) 7 = Some sample_message \<and>
   NewV4 (calm_env [0] 5) = Some (302240678275694148452352, calm_env [] 5) \<and>
   (\<exists>r' e' new.
      UpdateMessage 7 [] \<lparr>db = sample_database, hub = []\<rparr> (calm_env [0] 5) = (Inr (), r', e') \<and>
      archived_messages (db r') =
        [\<lparr>am_ID = 302240678275694148452352, am_MessageID = 7, am_UserID = 1,
          am_Text = ''old'', am_DateTime = 3\<rparr>] \<and>
      select_message (messages (db r')) 7 = Some new \<and> Text new = [] \<and>
      (\<exists>before. hub r' = [MessageUpdated 7 before new])) \<and>
   UpdateMessage_legacy 7 [] \<lparr>db = sample_database, hub = []\<rparr> (calm_env [0] 5) =
     (Inl ErrTextEmpty, \<lparr>db = sample_database, hub = []\<rparr>, calm_env [0] 5)"
proof -
  let ?r = "\<lparr>db = sample_database, hub = []\<rparr>"
  note T = UpdateMessage_checks_the_id_only[where messageID = 7 and r = "?r"
      and e = "calm_env [0] 5" and old = sample_message and aid = 302240678275694148452352
      and ?e0.0 = "calm_env [] 5" and content = "[]"]
  have nn: "(7 :: uuid) \<noteq> uuid_Nil" by (simp add: uuid_Nil_def)
  have sel: "select_message (messages (db ?r)) 7 = Some sample_message"
    by (simp add: select_message_def sample_database_def sample_message_def)
  have quiet: "faults (calm_env [0] 5) = []" by (simp add: calm_env_def)
  have v4: "NewV4 (calm_env [0] 5) = Some (302240678275694148452352, calm_env [] 5)"
    by (simp add: NewV4_def calm_env_def)
  have fresh: "302240678275694148452352 \<notin> set (map am_ID (archived_messages (db ?r)))"
    by (simp add: sample_database_def)
  from T nn sel quiet v4 fresh have
    "\<exists>r' e' new.
      UpdateMessage 7 [] ?r (calm_env [0] 5) = (Inr (), r', e') \<and>
      archived_messages (db r') = archived_messages (db ?r) @
        [\<lparr>am_ID = 302240678275694148452352, am_MessageID = 7, am_UserID = UserID sample_message,
          am_Text = Text sample_message, am_DateTime = UpdatedAt sample_message\<rparr>] \<and>
      select_message (messages (db r')) 7 = Some new \<and> Text new = [] \<and>
      (\<exists>before. hub r' = hub ?r @ [MessageUpdated 7 before new])"
    by blast
  then have b: "\<exists>r' e' new.
      UpdateMessage 7 [] ?r (calm_env [0] 5) = (Inr (), r', e') \<and>
      archived_messages (db r') =
        [\<lparr>am_ID = 302240678275694148452352, am_MessageID = 7, am_UserID = 1,
          am_Text = ''old'', am_DateTime = 3\<rparr>] \<and>
      select_message (messages (db r')) 7 = Some new \<and> Text new = [] \<and>
      (\<exists>before. hub r' = [MessageUpdated 7 before new])"
    by (simp add: sample_database_def sample_message_def)
  from T nn have c: "UpdateMessage_legacy 7 [] ?r (calm_env [0] 5) = (Inl ErrTextEmpty, ?r, calm_env [0] 5)"
    by blast
  have sel': "select_message (messages sample_database) 7 = Some sample_message"
    using sel by simp
  show ?thesis using sel' v4 b c by (intro conjI)
qed

text \<open>
  The claim as first stated, that an update to the empty text fails and changes nothing,
  fails on message 7 of the sample store: the update returns nil, the old text is
  archived, the stored text is empty and one event is published.
\<close>

theorem UpdateMessage_empty_text_counterexample:
  "fst (UpdateMessage 7 [] \<lparr>db = sample_database, hub = []\<rparr> (calm_env [0] 5)) = Inr () \<and>
   archived_messages (db (fst (snd
       (UpdateMessage 7 [] \<lparr>db = sample_database, hub = []\<rparr> (calm_env [0] 5))))) =
     [\<lparr>am_ID = 302240678275694148452352, am_MessageID = 7, am_UserID = 1,
       am_Text = ''old'', am_DateTime = 3\<rparr>] \<and>
   map Text (messages (db (fst (snd
       (UpdateMessage 7 [] \<lparr>db = sample_database, hub = []\<rparr> (calm_env [0] 5)))))) = [[]] \<and>
   length (hub (fst (snd
       (UpdateMessage 7 [] \<lparr>db = sample_database, hub = []\<rparr> (calm_env [0] 5))))) = 1"
  by (simp add: run_defs)

section \<open>Look-ahead pagination of GetMessages\<close>

lemmas query_defs =
  stmt_db_def stmt_Scopes_messagePreloads_def stmt_Order_created_at_def stmt_Offset_def
  stmt_Limit_def stmt_Joins_channels_def stmt_Where_def stmt_rows_def matching_def
  stmt_Find_def stmt_Raw_public_messages_Scan_def GetMessages_def
  activity_query_def three_messages_def

text \<open>
  On the query-builder path the look-ahead works as the spec describes: for a limit
  \<open>N\<close> below the largest \<^verbatim>\<open>int\<close>, a successful \<^verbatim>\<open>GetMessages\<close> returns the first \<open>N\<close>
  matching rows (up to their preloads) and reports more exactly when more than \<open>N\<close> rows
  match. On the index-forcing path the raw statement returns every public message, and
  the answer is all but the last of them as soon as there are more than \<open>N\<close>.
\<close>

lemma matching_ignores_limit [simp]:
  "matching (tx\<lparr>st_limit := n\<rparr>) d = matching tx d"
  by (simp add: matching_def stmt_rows_def Let_def)

lemma GetMessages_builder_path:
  assumes "\<not> index_forcing_path q"
  shows "GetMessages q r e =
     (if 0 <s Limit q
      then (case stmt_Find ((built_stmt q)\<lparr>st_limit := Limit q + 1\<rparr>) (db r) e of
              (msgs, err, e1) \<Rightarrow>
                (if sint (Limit q) < int (length msgs)
                 then ((butlast msgs, True, err), e1)
                 else ((msgs, False, err), e1)))
      else (case stmt_Find (built_stmt q) (db r) e of
              (msgs, err, e1) \<Rightarrow> ((msgs, False, err), e1)))"
  using assms
  by (cases "Since q"; cases "Until q")
     (simp_all add: GetMessages_def index_forcing_path_def built_stmt_def stmt_db_def
        stmt_Scopes_messagePreloads_def stmt_Order_created_at_def stmt_Offset_def
        stmt_Limit_def stmt_Joins_channels_def stmt_Where_def Let_def)

lemma sint_succ:
  fixes n :: go_int
  assumes "0 <s n" and "sint n < 2 ^ 63 - 1"
  shows "sint (n + 1) = sint n + 1" and "0 <s n + 1"
proof -
  have pos: "0 < sint n" using assms(1) by (simp add: word_sless_alt)
  have "sint (n + 1) = signed_take_bit 63 (sint n + 1)"
    by (simp add: sint_word_ariths)
  also have "\<dots> = sint n + 1"
    using pos assms(2) by (intro signed_take_bit_int_eq_self) auto
  finally show "sint (n + 1) = sint n + 1" .
  then show "0 <s n + 1" using pos by (simp add: word_sless_alt)
qed

lemma GetMessages_builder_lookahead:
  assumes path: "\<not> index_forcing_path q"
    and lim: "0 <s Limit q" "sint (Limit q) < 2 ^ 63 - 1"
    and ok: "GetMessages q r e = ((msgs, hasMore, None), e')"
  shows "length msgs \<le> nat (sint (Limit q)) \<and>
         hasMore = (nat (sint (Limit q)) < length (matching (built_stmt q) (db r))) \<and>
         map ID msgs = map ID (take (nat (sint (Limit q))) (matching (built_stmt q) (db r)))"
proof -
  let ?N = "nat (sint (Limit q))"
  let ?rows = "matching (built_stmt q) (db r)"
  let ?page = "take (Suc ?N) ?rows"
  have pos: "0 < sint (Limit q)" using lim(1) by (simp add: word_sless_alt)
  have n1: "nat (sint (Limit q + 1)) = Suc ?N"
    using sint_succ(1)[OF lim] pos by (simp add: nat_add_distrib)
  have p1: "0 <s Limit q + 1" by (rule sint_succ(2)[OF lim])
  obtain fetched where
    f: "stmt_Find ((built_stmt q)\<lparr>st_limit := Limit q + 1\<rparr>) (db r) e = (fetched, None, e')"
    and res: "(msgs, hasMore) = (if sint (Limit q) < int (length fetched)
                               then (butlast fetched, True) else (fetched, False))"
    using ok lim(1) unfolding GetMessages_builder_path[OF path]
    by (auto split: prod.splits if_splits)
  have ids: "map ID fetched = map ID ?page"
    using f p1 n1
    by (auto simp: stmt_Find_def Let_def messagePreloads_def comp_def
             split: prod.splits option.splits if_splits)
  then have len: "length fetched = length ?page" by (metis length_map)
  have lt: "sint (Limit q) < int (length fetched) \<longleftrightarrow> ?N < length ?rows"
    using pos unfolding len by auto
  show ?thesis
  proof (cases "?N < length ?rows")
    case True
    then have b: "butlast ?page = take ?N ?rows"
      by (simp add: butlast_take)
    from True lt res have "msgs = butlast fetched" "hasMore" by simp_all
    moreover have "map ID (butlast fetched) = map ID (take ?N ?rows)"
      using ids b by (metis map_butlast)
    ultimately show ?thesis using True by (metis length_map length_take min.cobounded2)
  next
    case False
    then have b: "?page = take ?N ?rows" by simp
    from False lt res have "msgs = fetched" "\<not> hasMore" by simp_all
    then show ?thesis using ids b False by (metis length_map length_take min.cobounded2)
  qed
qed

lemma GetMessages_index_forcing_path:
  assumes "index_forcing_path q" and "healthy 1 e"
  shows "fst (GetMessages q r e) =
           (let rows = concat (map (\<lambda>m. map (\<lambda>c. m)
                          (filter (\<lambda>c. ch_ID c = ChannelID m \<and> DeletedAt m = None \<and> ch_IsPublic c)
                             (channels (db r))))
                        (messages (db r)))
            in if sint (Limit q) < int (length rows)
               then (butlast rows, True, None) else (rows, False, None))"
proof -
  from healthy_Suc[of 0 e] assms(2) obtain e1 where "substrate e = (None, e1)" by auto
  with assms(1) show ?thesis
    by (simp add: GetMessages_def index_forcing_path_def stmt_Raw_public_messages_Scan_def Let_def)
qed

text \<open>
  C5. The activity-feed query with limit 1, on a store with three messages in a public
  channel: \<^verbatim>\<open>GetMessages\<close> takes the index-forcing path and, with \<^verbatim>\<open>hasMore\<close> true,
  returns two messages, where the claim allows at most one.
\<close>

theorem GetMessages_activity_feed_exceeds_limit:
  "fst (GetMessages activity_query \<lparr>db = three_messages, hub = []\<rparr> (calm_env [] 5)) =
     ([sample_message, sample_message\<lparr>ID := 8, CreatedAt := 4, UpdatedAt := 4\<rparr>], True, None) \<and>
   sint (Limit activity_query) = 1 \<and>
   length (fst (fst (GetMessages activity_query \<lparr>db = three_messages, hub = []\<rparr>
                       (calm_env [] 5)))) = 2"
  by (simp add: query_defs run_defs word_sless_alt)

theorem GetMessages_activity_feed_exceeds_limit_witness:
  "index_forcing_path activity_query \<and>
   \<not> length (fst (fst (GetMessages activity_query \<lparr>db = three_messages, hub = []\<rparr>
                          (calm_env [] 5))))
       \<le> nat (sint (Limit activity_query))"
  using GetMessages_activity_feed_exceeds_limit
  by (simp add: index_forcing_path_def activity_query_def uuid_Nil_def word_sless_alt)
end
